theory Spec2Isabelle
  imports Main "HOL-Library.Word" "HOL-Library.Sublist"
begin

unbundle bit_operations_syntax

section \<open>MAX14906 register driver: data model\<close>

text \<open>
  Embedding of \<^verbatim>\<open>drivers/digital-io/max14906/max14906.c\<close>.
  \<^verbatim>\<open>uint8_t\<close> is \<open>8 word\<close>, \<^verbatim>\<open>uint32_t\<close> is \<open>32 word\<close>; the \<^verbatim>\<open>int\<close>
  return codes are never computed with, so they are \<open>int\<close>.
\<close>

type_synonym byte = "8 word"
type_synonym u32 = "32 word"

text \<open>Error numbers of \<^verbatim>\<open>errno.h\<close>.\<close>

definition ENOMEM :: int where "ENOMEM = 12"
definition ENODEV :: int where "ENODEV = 19"
definition EINVAL :: int where "EINVAL = 22"

subsection \<open>CRC5\<close>

text \<open>
  One iteration of the three loop bodies of \<^verbatim>\<open>max14906_crc_encode\<close> and
  \<^verbatim>\<open>max14906_crc_decode\<close> (they are the same text): the byte \<open>b\<close> is the byte the
  loop reads, \<open>i\<close> the loop counter. The C expression \<^verbatim>\<open>(crc5_result << 1) & 0x1f\<close> is
  computed in \<^verbatim>\<open>int\<close>; the mask keeps five bits, so the 8-bit shift gives the same value.
\<close>

definition crc5_body :: "byte \<Rightarrow> nat \<Rightarrow> byte \<Rightarrow> byte" where
  "crc5_body b i crc5_result =
     (let crc5_poly = 0x15 :: byte;
          data_bit = drop_bit (7 - i) b AND 0x01;
          result_bit = drop_bit 4 (crc5_result AND 0x10)
      in if data_bit XOR result_bit \<noteq> 0
         then crc5_poly XOR (push_bit 1 crc5_result AND 0x1f)
         else push_bit 1 crc5_result AND 0x1f)"

text \<open>\<^verbatim>\<open>for (int i = i0; i < n; i++) body\<close> over one byte.\<close>

function crc5_loop :: "byte \<Rightarrow> nat \<Rightarrow> nat \<Rightarrow> byte \<Rightarrow> byte" where
  "crc5_loop b i n crc5_result =
     (if i < n then crc5_loop b (Suc i) n (crc5_body b i crc5_result) else crc5_result)"
  by pat_completeness auto
termination
  by (relation "measure (\<lambda>(b, i, n, c). n - i)") auto

declare crc5_loop.simps [simp del]

text \<open>
  \<^verbatim>\<open>data\<close> points at the scratch buffer of the descriptor; only \<^verbatim>\<open>data[0]\<close> and
  \<^verbatim>\<open>data[1]\<close> are read.
\<close>

definition max14906_crc_encode :: "byte list \<Rightarrow> byte" where
  "max14906_crc_encode data =
     (let crc5_start = 0x1f :: byte;
          extra_byte = 0x00 :: byte;
          crc5_result = crc5_start;
          crc5_result = crc5_loop (data ! 0) 0 8 crc5_result;
          crc5_result = crc5_loop (data ! 1) 0 8 crc5_result;
          crc5_result = crc5_loop extra_byte 0 3 crc5_result
      in crc5_result)"

definition max14906_crc_decode :: "byte list \<Rightarrow> byte" where
  "max14906_crc_decode data =
     (let crc5_start = 0x1f :: byte;
          extra_byte = 0x00 :: byte;
          crc5_result = crc5_start;
          crc5_result = crc5_loop (data ! 0) 2 8 crc5_result;
          crc5_result = crc5_loop (data ! 1) 0 8 crc5_result;
          crc5_result = crc5_loop extra_byte 0 3 crc5_result
      in crc5_result)"

subsection \<open>Bit fields\<close>

text \<open>
  Modelled from the spec: \<^verbatim>\<open>no_os_util.h\<close> (\<^verbatim>\<open>no_os_field_prep\<close>,
  \<^verbatim>\<open>no_os_field_get\<close>, \<^verbatim>\<open>no_os_find_first_set_bit\<close>) is not under src/. The spec
  names a field by its mask ("a 1-bit field at a channel-specific offset", "a
  2-bit-per-channel field", "chip_address(2 bits) | addr(5 bits) | RW=1"), and the source
  says of the value given to \<^verbatim>\<open>max14906_reg_update\<close> that it "should be bit shifted by
  using no_os_field_prep(mask, val)": preparing a field shifts the value to the lowest set
  bit of the mask and keeps the bits of the mask, getting a field masks the word and shifts
  it back. A mask of 0 has no set bit: the position is then 32 and both results are 0.
\<close>

definition no_os_find_first_set_bit :: "u32 \<Rightarrow> nat" where
  "no_os_find_first_set_bit word = length (takeWhile (\<lambda>n. \<not> bit word n) [0..<32])"

definition no_os_field_prep :: "u32 \<Rightarrow> u32 \<Rightarrow> u32" where
  "no_os_field_prep msk val = push_bit (no_os_find_first_set_bit msk) val AND msk"

definition no_os_field_get :: "u32 \<Rightarrow> u32 \<Rightarrow> u32" where
  "no_os_field_get msk word = drop_bit (no_os_find_first_set_bit msk) (word AND msk)"

subsection \<open>The header\<close>

text \<open>
  Modelled from the spec: \<^verbatim>\<open>max14906.h\<close> is not under src/. The spec gives the number
  of channels ("one of 4 logical channels (index 0-3)") and the size of a frame without
  CRC ("a fixed 2- or 3-byte SPI frame", "extends the transfer length to 3").
\<close>

definition MAX14906_CHANNELS :: nat where "MAX14906_CHANNELS = 4"
definition MAX14906_FRAME_SIZE :: nat where "MAX14906_FRAME_SIZE = 2"

text \<open>
  The other macros and enumeration constants of \<^verbatim>\<open>max14906.h\<close> that the source uses
  have no value in the spec. They are the fields of a record that every function of the
  driver takes as its parameter \<open>h\<close>; a macro with an argument is a function of the
  channel index.
\<close>

record max14906_hdr =
  MAX14906_CHIP_ADDR_MASK :: u32
  MAX14906_ADDR_MASK :: u32
  MAX14906_RW_MASK :: u32
  MAX14906_SETOUT_REG :: u32
  MAX14906_DOILEVEL_REG :: u32
  MAX14906_OVR_LD_REG :: u32
  MAX14906_OPN_WIR_FLT_REG :: u32
  MAX14906_SHD_VDD_FLT_REG :: u32
  MAX14906_GLOBAL_FLT_REG :: u32
  MAX14906_CONFIG_DO_REG :: u32
  MAX14906_CONFIG_CURR_LIM :: u32
  MAX14906_DOI_LEVEL_MASK :: "u32 \<Rightarrow> u32"
  MAX14906_HIGHO_MASK :: "u32 \<Rightarrow> u32"
  MAX14906_DO_MASK :: "u32 \<Rightarrow> u32"
  MAX14906_CH_DIR_MASK :: "u32 \<Rightarrow> u32"
  MAX14906_CL_MASK :: "u32 \<Rightarrow> u32"
  MAX14906_HIGH_SIDE :: u32
  MAX14906_PUSH_PULL :: u32
  MAX14906_IN :: u32
  MAX14906_HIGH_Z :: u32
  MAX14906_CL_130 :: u32

subsection \<open>Descriptor, platform and trace\<close>

text \<open>
  A pointer to an object of the platform (SPI descriptor, GPIO descriptor, their
  initialisation parameters) is a \<open>handle option\<close>, \<open>None\<close> the null pointer.
\<close>

type_synonym handle = nat

record max14906_init_param =
  comm_param :: "handle option"
  enable_param :: "handle option"
  crc_en :: bool

record max14906_desc =
  chip_address :: u32
  comm_desc :: "handle option"
  enable :: "handle option"
  buff :: "byte list"
  crc_en :: bool

datatype no_os_gpio_values = NO_OS_GPIO_LOW | NO_OS_GPIO_HIGH | NO_OS_GPIO_HIGH_Z

text \<open>
  One \<^verbatim>\<open>struct no_os_spi_msg\<close> as the transport sees it: \<open>tx_buff\<close> holds the
  \<open>bytes_number\<close> bytes it sends from the descriptor's buffer, \<open>rx_buff\<close> says whether
  the answer is stored back into that buffer (the pointer is null otherwise).
\<close>

record no_os_spi_msg =
  tx_buff :: "byte list"
  rx_buff :: bool
  bytes_number :: nat
  cs_change :: byte

text \<open>
  The SPI, GPIO and allocation functions are outside the driver. They are the fields of a
  record over a platform state \<open>'p\<close>; each returns its return code, what it stores
  through its output pointer, and the next platform state.
\<close>

record 'p platform =
  plat_calloc :: "'p \<Rightarrow> bool \<times> 'p"
  plat_free :: "'p \<Rightarrow> 'p"
  plat_spi_init :: "handle option \<Rightarrow> 'p \<Rightarrow> int \<times> handle option \<times> 'p"
  plat_spi_transfer :: "handle option \<Rightarrow> no_os_spi_msg \<Rightarrow> 'p \<Rightarrow> int \<times> byte list \<times> 'p"
  plat_spi_remove :: "handle option \<Rightarrow> 'p \<Rightarrow> int \<times> 'p"
  plat_gpio_get_optional :: "handle option \<Rightarrow> 'p \<Rightarrow> int \<times> handle option \<times> 'p"
  plat_gpio_set_value :: "handle option \<Rightarrow> no_os_gpio_values \<Rightarrow> 'p \<Rightarrow> int \<times> 'p"
  plat_gpio_remove :: "handle option \<Rightarrow> 'p \<Rightarrow> int \<times> 'p"

text \<open>Every call into the platform is recorded, the latest last.\<close>

datatype event =
    Calloc
  | Free
  | SpiInit "handle option"
  | SpiTransfer "handle option" no_os_spi_msg
  | SpiRemove "handle option"
  | GpioGetOptional "handle option"
  | GpioSetValue "handle option" no_os_gpio_values
  | GpioRemove "handle option"

record 'p world =
  plat :: 'p
  trace :: "event list"

definition no_os_calloc :: "'p platform \<Rightarrow> 'p world \<Rightarrow> bool \<times> 'p world" where
  "no_os_calloc P w =
     (case plat_calloc P (plat w) of
        (ok, p) \<Rightarrow> (ok, \<lparr>plat = p, trace = trace w @ [Calloc]\<rparr>))"

definition no_os_free :: "'p platform \<Rightarrow> 'p world \<Rightarrow> 'p world" where
  "no_os_free P w = \<lparr>plat = plat_free P (plat w), trace = trace w @ [Free]\<rparr>"

definition no_os_spi_init ::
  "'p platform \<Rightarrow> handle option \<Rightarrow> 'p world \<Rightarrow> int \<times> handle option \<times> 'p world" where
  "no_os_spi_init P param w =
     (case plat_spi_init P param (plat w) of
        (ret, c, p) \<Rightarrow> (ret, c, \<lparr>plat = p, trace = trace w @ [SpiInit param]\<rparr>))"

definition no_os_spi_transfer ::
  "'p platform \<Rightarrow> handle option \<Rightarrow> no_os_spi_msg \<Rightarrow> 'p world \<Rightarrow> int \<times> byte list \<times> 'p world" where
  "no_os_spi_transfer P c msg w =
     (case plat_spi_transfer P c msg (plat w) of
        (ret, rx, p) \<Rightarrow> (ret, rx, \<lparr>plat = p, trace = trace w @ [SpiTransfer c msg]\<rparr>))"

definition no_os_spi_remove :: "'p platform \<Rightarrow> handle option \<Rightarrow> 'p world \<Rightarrow> int \<times> 'p world" where
  "no_os_spi_remove P c w =
     (case plat_spi_remove P c (plat w) of
        (ret, p) \<Rightarrow> (ret, \<lparr>plat = p, trace = trace w @ [SpiRemove c]\<rparr>))"

definition no_os_gpio_get_optional ::
  "'p platform \<Rightarrow> handle option \<Rightarrow> 'p world \<Rightarrow> int \<times> handle option \<times> 'p world" where
  "no_os_gpio_get_optional P param w =
     (case plat_gpio_get_optional P param (plat w) of
        (ret, g, p) \<Rightarrow> (ret, g, \<lparr>plat = p, trace = trace w @ [GpioGetOptional param]\<rparr>))"

definition no_os_gpio_set_value ::
  "'p platform \<Rightarrow> handle option \<Rightarrow> no_os_gpio_values \<Rightarrow> 'p world \<Rightarrow> int \<times> 'p world" where
  "no_os_gpio_set_value P g v w =
     (case plat_gpio_set_value P g v (plat w) of
        (ret, p) \<Rightarrow> (ret, \<lparr>plat = p, trace = trace w @ [GpioSetValue g v]\<rparr>))"

definition no_os_gpio_remove :: "'p platform \<Rightarrow> handle option \<Rightarrow> 'p world \<Rightarrow> int \<times> 'p world" where
  "no_os_gpio_remove P g w =
     (case plat_gpio_remove P g (plat w) of
        (ret, p) \<Rightarrow> (ret, \<lparr>plat = p, trace = trace w @ [GpioRemove g]\<rparr>))"

section \<open>The driver\<close>

text \<open>
  Each function takes the platform \<open>P\<close>, the header \<open>h\<close>, the descriptor its
  \<^verbatim>\<open>desc\<close> points at and the world, and returns its return code, the descriptor and the
  world as it leaves them. A pointer through which it stores a result (\<^verbatim>\<open>val\<close>,
  \<^verbatim>\<open>climit\<close>, the \<^verbatim>\<open>desc\<close> of \<^verbatim>\<open>max14906_init\<close>) is the object pointed
  at: the function takes its content and returns what it holds afterwards.
\<close>

subsection \<open>Register access\<close>

definition max14906_reg_write ::
  "'p platform \<Rightarrow> max14906_hdr \<Rightarrow> max14906_desc \<Rightarrow> u32 \<Rightarrow> u32 \<Rightarrow> 'p world
     \<Rightarrow> int \<times> max14906_desc \<times> 'p world" where
  "max14906_reg_write P h desc addr val w =
     (let n = MAX14906_FRAME_SIZE;
          b0 = ucast (no_os_field_prep (MAX14906_CHIP_ADDR_MASK h) (chip_address desc)) :: byte;
          b0 = ucast ((ucast b0 :: u32) OR no_os_field_prep (MAX14906_ADDR_MASK h) addr) :: byte;
          b0 = ucast ((ucast b0 :: u32) OR no_os_field_prep (MAX14906_RW_MASK h) 1) :: byte;
          buf = (buff desc)[0 := b0];
          buf = buf[1 := ucast val];
          n = (if crc_en desc then n + 1 else n);
          buf = (if crc_en desc then buf[2 := max14906_crc_encode buf] else buf);
          desc = desc\<lparr>buff := buf\<rparr>;
          xfer = \<lparr>tx_buff = take n buf, rx_buff = False, bytes_number = n, cs_change = 1\<rparr>
      in case no_os_spi_transfer P (comm_desc desc) xfer w of
           (ret, rx, w) \<Rightarrow> (ret, desc, w))"

text \<open>
  \<^verbatim>\<open>memset(desc->buff, 0, n)\<close>, and the transport storing its answer: at most \<open>n\<close>
  bytes, at the start of the buffer.
\<close>

definition memset0 :: "byte list \<Rightarrow> nat \<Rightarrow> byte list" where
  "memset0 buf n = replicate (min n (length buf)) 0 @ drop n buf"

definition store_rx :: "nat \<Rightarrow> byte list \<Rightarrow> byte list \<Rightarrow> byte list" where
  "store_rx n rx buf = take (min n (length buf)) rx @ drop (min n (length rx)) buf"

definition max14906_reg_read ::
  "'p platform \<Rightarrow> max14906_hdr \<Rightarrow> max14906_desc \<Rightarrow> u32 \<Rightarrow> u32 \<Rightarrow> 'p world
     \<Rightarrow> int \<times> u32 \<times> max14906_desc \<times> 'p world" where
  "max14906_reg_read P h desc addr val w =
     (let n = MAX14906_FRAME_SIZE;
          n = (if crc_en desc then n + 1 else n);
          buf = memset0 (buff desc) n;
          b0 = ucast (no_os_field_prep (MAX14906_CHIP_ADDR_MASK h) (chip_address desc)) :: byte;
          b0 = ucast ((ucast b0 :: u32) OR no_os_field_prep (MAX14906_ADDR_MASK h) addr) :: byte;
          b0 = ucast ((ucast b0 :: u32) OR no_os_field_prep (MAX14906_RW_MASK h) 0) :: byte;
          buf = buf[0 := b0];
          buf = (if crc_en desc then buf[2 := max14906_crc_encode buf] else buf);
          xfer = \<lparr>tx_buff = take n buf, rx_buff = True, bytes_number = n, cs_change = 1\<rparr>
      in case no_os_spi_transfer P (comm_desc desc) xfer w of
           (ret, rx, w) \<Rightarrow>
             let buf = store_rx n rx buf;
                 desc = desc\<lparr>buff := buf\<rparr>
             in if ret \<noteq> 0 then (ret, val, desc, w)
                else if crc_en desc \<and> max14906_crc_decode buf \<noteq> buf ! 2
                     then (- EINVAL, val, desc, w)
                else (0, ucast (buf ! 1), desc, w))"

definition max14906_reg_update ::
  "'p platform \<Rightarrow> max14906_hdr \<Rightarrow> max14906_desc \<Rightarrow> u32 \<Rightarrow> u32 \<Rightarrow> u32 \<Rightarrow> 'p world
     \<Rightarrow> int \<times> max14906_desc \<times> 'p world" where
  "max14906_reg_update P h desc addr msk val w =
     (let reg_val = 0
      in case max14906_reg_read P h desc addr reg_val w of
           (ret, reg_val, desc, w) \<Rightarrow>
             if ret \<noteq> 0 then (ret, desc, w)
             else let reg_val = reg_val AND NOT msk;
                      reg_val = reg_val OR (msk AND val)
                  in max14906_reg_write P h desc addr reg_val w)"

subsection \<open>Channels\<close>

definition max14906_ch_get ::
  "'p platform \<Rightarrow> max14906_hdr \<Rightarrow> max14906_desc \<Rightarrow> u32 \<Rightarrow> u32 \<Rightarrow> 'p world
     \<Rightarrow> int \<times> u32 \<times> max14906_desc \<times> 'p world" where
  "max14906_ch_get P h desc ch val w =
     (if ch \<ge> of_nat MAX14906_CHANNELS then (- EINVAL, val, desc, w)
      else case max14906_reg_read P h desc (MAX14906_DOILEVEL_REG h) val w of
             (ret, val, desc, w) \<Rightarrow>
               if ret \<noteq> 0 then (ret, val, desc, w)
               else (0, no_os_field_get (MAX14906_DOI_LEVEL_MASK h ch) val, desc, w))"

definition max14906_ch_set ::
  "'p platform \<Rightarrow> max14906_hdr \<Rightarrow> max14906_desc \<Rightarrow> u32 \<Rightarrow> u32 \<Rightarrow> 'p world
     \<Rightarrow> int \<times> max14906_desc \<times> 'p world" where
  "max14906_ch_set P h desc ch val w =
     (if ch \<ge> of_nat MAX14906_CHANNELS then (- EINVAL, desc, w)
      else max14906_reg_update P h desc (MAX14906_SETOUT_REG h) (MAX14906_HIGHO_MASK h ch)
             (if val \<noteq> 0 then MAX14906_HIGHO_MASK h ch else 0) w)"

text \<open>\<^verbatim>\<open>function\<close> is a value of \<^verbatim>\<open>enum max14906_function\<close>.\<close>

definition max14906_ch_func ::
  "'p platform \<Rightarrow> max14906_hdr \<Rightarrow> max14906_desc \<Rightarrow> u32 \<Rightarrow> u32 \<Rightarrow> 'p world
     \<Rightarrow> int \<times> max14906_desc \<times> 'p world" where
  "max14906_ch_func P h desc ch func w =
     (if func = MAX14906_HIGH_Z h then
        (case max14906_reg_update P h desc (MAX14906_CONFIG_DO_REG h) (MAX14906_DO_MASK h ch)
                (no_os_field_prep (MAX14906_DO_MASK h ch) (MAX14906_PUSH_PULL h)) w of
           (ret, desc, w) \<Rightarrow>
             if ret \<noteq> 0 then (ret, desc, w)
             else max14906_reg_update P h desc (MAX14906_SETOUT_REG h)
                    (MAX14906_CH_DIR_MASK h ch)
                    (no_os_field_prep (MAX14906_CH_DIR_MASK h ch) 1) w)
      else
        (case (if func = MAX14906_IN h
               then max14906_reg_update P h desc (MAX14906_CONFIG_DO_REG h)
                      (MAX14906_DO_MASK h ch)
                      (no_os_field_prep (MAX14906_DO_MASK h ch) (MAX14906_HIGH_SIDE h)) w
               else (0, desc, w)) of
           (ret, desc, w) \<Rightarrow>
             if ret \<noteq> 0 then (ret, desc, w)
             else max14906_reg_update P h desc (MAX14906_SETOUT_REG h)
                    (MAX14906_CH_DIR_MASK h ch)
                    (no_os_field_prep (MAX14906_CH_DIR_MASK h ch) func) w))"

text \<open>\<^verbatim>\<open>climit\<close> is a value of \<^verbatim>\<open>enum max14906_climit\<close>.\<close>

definition max14906_climit_set ::
  "'p platform \<Rightarrow> max14906_hdr \<Rightarrow> max14906_desc \<Rightarrow> u32 \<Rightarrow> u32 \<Rightarrow> 'p world
     \<Rightarrow> int \<times> max14906_desc \<times> 'p world" where
  "max14906_climit_set P h desc ch climit w =
     max14906_reg_update P h desc (MAX14906_CONFIG_CURR_LIM h) (MAX14906_CL_MASK h ch)
       (no_os_field_prep (MAX14906_CL_MASK h ch) climit) w"

text \<open>
  \<^verbatim>\<open>climit\<close> may be the null pointer: \<open>None\<close>, and \<open>Some c\<close> an object holding
  \<open>c\<close>. The local \<^verbatim>\<open>reg_val\<close> is not initialised; it is read only after
  \<^verbatim>\<open>max14906_reg_read\<close> has stored into it, so the 0 it starts with here is never seen.
\<close>

definition max14906_climit_get ::
  "'p platform \<Rightarrow> max14906_hdr \<Rightarrow> max14906_desc \<Rightarrow> u32 \<Rightarrow> u32 option \<Rightarrow> 'p world
     \<Rightarrow> int \<times> u32 option \<times> max14906_desc \<times> 'p world" where
  "max14906_climit_get P h desc ch climit w =
     (if climit = None then (- EINVAL, climit, desc, w)
      else case max14906_reg_read P h desc (MAX14906_CONFIG_CURR_LIM h) 0 w of
             (ret, reg_val, desc, w) \<Rightarrow>
               if ret \<noteq> 0 then (ret, climit, desc, w)
               else (0, Some (no_os_field_get (MAX14906_CL_MASK h ch) reg_val), desc, w))"

subsection \<open>Initialisation and removal\<close>

text \<open>
  The block \<^verbatim>\<open>no_os_calloc\<close> returns: every field zero. Modelled from the spec: the
  declaration of \<^verbatim>\<open>struct max14906_desc\<close> is in \<^verbatim>\<open>max14906.h\<close>, not under
  src/; its buffer is "a fixed-size scratch buffer (3 bytes: command byte, data byte,
  optional CRC byte)".
\<close>

definition calloc_desc :: max14906_desc where
  "calloc_desc =
     \<lparr>chip_address = 0, comm_desc = None, enable = None, buff = [0, 0, 0], crc_en = False\<rparr>"

text \<open>
  The loop of \<^verbatim>\<open>max14906_init\<close> over the channels, from \<^verbatim>\<open>i\<close> on. It stops at
  the first call that fails and returns its code (the \<^verbatim>\<open>goto gpio_err\<close>).
\<close>

function init_channels ::
  "'p platform \<Rightarrow> max14906_hdr \<Rightarrow> nat \<Rightarrow> max14906_desc \<Rightarrow> 'p world
     \<Rightarrow> int \<times> max14906_desc \<times> 'p world" where
  "init_channels P h i descriptor w =
     (if i < MAX14906_CHANNELS then
        (case max14906_ch_func P h descriptor (of_nat i) (MAX14906_HIGH_Z h) w of
           (ret, descriptor, w) \<Rightarrow>
             if ret \<noteq> 0 then (ret, descriptor, w)
             else case max14906_climit_set P h descriptor (of_nat i) (MAX14906_CL_130 h) w of
                    (ret, descriptor, w) \<Rightarrow>
                      if ret \<noteq> 0 then (ret, descriptor, w)
                      else init_channels P h (Suc i) descriptor w)
      else (0, descriptor, w))"
  by pat_completeness auto
termination
  by (relation "measure (\<lambda>(P, h, i, d, w). MAX14906_CHANNELS - i)") auto

declare init_channels.simps [simp del]

text \<open>
  \<^verbatim>\<open>max14906_init\<close> from the comment "Clear the latched faults generated at power up"
  to the end of the loop; a code other than 0 is the \<^verbatim>\<open>ret\<close> the source jumps to
  \<^verbatim>\<open>gpio_err\<close> with. The local \<^verbatim>\<open>reg_val\<close> is not initialised and never read.
\<close>

definition init_configure ::
  "'p platform \<Rightarrow> max14906_hdr \<Rightarrow> max14906_desc \<Rightarrow> 'p world
     \<Rightarrow> int \<times> max14906_desc \<times> 'p world" where
  "init_configure P h descriptor w =
     (case max14906_reg_read P h descriptor (MAX14906_OVR_LD_REG h) 0 w of
        (ret, reg_val, descriptor, w) \<Rightarrow>
     if ret \<noteq> 0 then (ret, descriptor, w) else
     case max14906_reg_read P h descriptor (MAX14906_OPN_WIR_FLT_REG h) reg_val w of
        (ret, reg_val, descriptor, w) \<Rightarrow>
     if ret \<noteq> 0 then (ret, descriptor, w) else
     case max14906_reg_read P h descriptor (MAX14906_SHD_VDD_FLT_REG h) reg_val w of
        (ret, reg_val, descriptor, w) \<Rightarrow>
     if ret \<noteq> 0 then (ret, descriptor, w) else
     case max14906_reg_read P h descriptor (MAX14906_GLOBAL_FLT_REG h) reg_val w of
        (ret, reg_val, descriptor, w) \<Rightarrow>
     if ret \<noteq> 0 then (ret, descriptor, w) else
     init_channels P h 0 descriptor w)"

text \<open>The labels \<^verbatim>\<open>gpio_err\<close> and \<^verbatim>\<open>err\<close>.\<close>

definition init_err :: "'p platform \<Rightarrow> int \<Rightarrow> 'p world \<Rightarrow> int \<times> 'p world" where
  "init_err P ret w = (ret, no_os_free P w)"

definition init_gpio_err ::
  "'p platform \<Rightarrow> max14906_desc \<Rightarrow> int \<Rightarrow> 'p world \<Rightarrow> int \<times> 'p world" where
  "init_gpio_err P descriptor ret w =
     (case no_os_gpio_remove P (enable descriptor) w of
        (r, w) \<Rightarrow>
     case no_os_spi_remove P (comm_desc descriptor) w of
        (r, w) \<Rightarrow>
     init_err P ret w)"

text \<open>
  What follows the enable line in \<^verbatim>\<open>max14906_init\<close>: the configuration, then either
  the store through \<^verbatim>\<open>desc\<close> or \<^verbatim>\<open>gpio_err\<close>.
\<close>

definition init_finish ::
  "'p platform \<Rightarrow> max14906_hdr \<Rightarrow> max14906_desc option \<Rightarrow> max14906_desc \<Rightarrow> 'p world
     \<Rightarrow> int \<times> max14906_desc option \<times> 'p world" where
  "init_finish P h desc descriptor w =
     (case init_configure P h descriptor w of
        (ret, descriptor, w) \<Rightarrow>
          if ret \<noteq> 0
          then (case init_gpio_err P descriptor ret w of (ret, w) \<Rightarrow> (ret, desc, w))
          else (0, Some descriptor, w))"

text \<open>
  \<open>desc\<close> is the object the caller's \<^verbatim>\<open>struct max14906_desc **desc\<close> points at: a
  pointer to a descriptor, \<open>None\<close> when null.
\<close>

definition max14906_init ::
  "'p platform \<Rightarrow> max14906_hdr \<Rightarrow> max14906_desc option \<Rightarrow> max14906_init_param \<Rightarrow> 'p world
     \<Rightarrow> int \<times> max14906_desc option \<times> 'p world" where
  "max14906_init P h desc param w =
     (case no_os_calloc P w of
        (ok, w) \<Rightarrow>
     if \<not> ok then (- ENOMEM, desc, w) else
     let descriptor = calloc_desc
     in case no_os_spi_init P (comm_param param) w of
        (ret, c, w) \<Rightarrow>
     let descriptor = descriptor\<lparr>comm_desc := c\<rparr>
     in if ret \<noteq> 0 then (case init_err P ret w of (ret, w) \<Rightarrow> (ret, desc, w)) else
     let descriptor = descriptor\<lparr>crc_en := max14906_init_param.crc_en param\<rparr>
     in case no_os_gpio_get_optional P (enable_param param) w of
        (ret, g, w) \<Rightarrow>
     let descriptor = descriptor\<lparr>enable := g\<rparr>
     in if ret = 0
        then (case no_os_gpio_set_value P (enable descriptor) NO_OS_GPIO_HIGH w of
                (ret, w) \<Rightarrow>
                  if ret \<noteq> 0
                  then (case init_gpio_err P descriptor ret w of (ret, w) \<Rightarrow> (ret, desc, w))
                  else init_finish P h desc descriptor w)
        else init_finish P h desc descriptor w)"

text \<open>The loop of \<^verbatim>\<open>max14906_remove\<close>, from \<^verbatim>\<open>i\<close> on.\<close>

function remove_channels ::
  "'p platform \<Rightarrow> max14906_hdr \<Rightarrow> nat \<Rightarrow> max14906_desc \<Rightarrow> 'p world
     \<Rightarrow> int \<times> max14906_desc \<times> 'p world" where
  "remove_channels P h i desc w =
     (if i < MAX14906_CHANNELS then
        (case max14906_ch_func P h desc (of_nat i) (MAX14906_HIGH_Z h) w of
           (ret, desc, w) \<Rightarrow>
             if ret \<noteq> 0 then (ret, desc, w)
             else remove_channels P h (Suc i) desc w)
      else (0, desc, w))"
  by pat_completeness auto
termination
  by (relation "measure (\<lambda>(P, h, i, d, w). MAX14906_CHANNELS - i)") auto

declare remove_channels.simps [simp del]

text \<open>
  \<open>desc\<close> is the pointer given: \<open>None\<close> when null. The pointer returned beside the
  code is \<open>None\<close> once the descriptor has been freed.
\<close>

definition max14906_remove ::
  "'p platform \<Rightarrow> max14906_hdr \<Rightarrow> max14906_desc option \<Rightarrow> 'p world
     \<Rightarrow> int \<times> max14906_desc option \<times> 'p world" where
  "max14906_remove P h desc w =
     (case desc of
        None \<Rightarrow> (- ENODEV, None, w)
      | Some d \<Rightarrow>
          (case remove_channels P h 0 d w of
             (ret, d, w) \<Rightarrow>
          if ret \<noteq> 0 then (ret, Some d, w) else
          case no_os_spi_remove P (comm_desc d) w of
             (ret, w) \<Rightarrow>
          if ret \<noteq> 0 then (ret, Some d, w) else
          case (if enable d \<noteq> None
                then no_os_gpio_set_value P (enable d) NO_OS_GPIO_HIGH_Z w
                else (ret, w)) of
             (ret, w) \<Rightarrow>
          if ret \<noteq> 0 then (ret, Some d, w) else
          (0, None, no_os_free P w)))"

section \<open>Vocabulary of the properties\<close>

subsection \<open>CRC5 as a division of a bit string\<close>

text \<open>
  The CRC5 of the spec, stated on the bits and not on the bytes: the bits of a byte, most
  significant first; one step of the division, which shifts the 5-bit remainder and
  subtracts the polynomial 0x15 when the bit shifted out differs from the data bit; the
  division of a whole bit string from the start value 0x1F.
\<close>

definition msb_bits :: "byte \<Rightarrow> bool list" where
  "msb_bits b = map (\<lambda>i. bit b (7 - i)) [0..<8]"

definition crc5_shift :: "bool \<Rightarrow> byte \<Rightarrow> byte" where
  "crc5_shift d r =
     (let r' = push_bit 1 r AND 0x1f in if d \<noteq> bit r 4 then r' XOR 0x15 else r')"

definition crc5_div :: "bool list \<Rightarrow> byte" where
  "crc5_div bs = fold crc5_shift bs 0x1f"

subsection \<open>Frames\<close>

text \<open>
  The command byte, the frames and the messages of the spec's wire format: the command
  byte is the chip address, the register address and the RW bit, each in its field; a
  frame is the command byte and a data byte, followed by their CRC5 (encode variant) when
  CRC is enabled.
\<close>

definition cmd_byte :: "max14906_hdr \<Rightarrow> u32 \<Rightarrow> u32 \<Rightarrow> u32 \<Rightarrow> byte" where
  "cmd_byte h chip addr rw =
     ucast (no_os_field_prep (MAX14906_CHIP_ADDR_MASK h) chip
            OR no_os_field_prep (MAX14906_ADDR_MASK h) addr
            OR no_os_field_prep (MAX14906_RW_MASK h) rw)"

definition frame_len :: "bool \<Rightarrow> nat" where
  "frame_len crc = (if crc then 3 else 2)"

definition write_frame :: "max14906_hdr \<Rightarrow> u32 \<Rightarrow> bool \<Rightarrow> u32 \<Rightarrow> u32 \<Rightarrow> byte list" where
  "write_frame h chip crc addr val =
     (let f = [cmd_byte h chip addr 1, ucast val]
      in if crc then f @ [max14906_crc_encode f] else f)"

definition read_frame :: "max14906_hdr \<Rightarrow> u32 \<Rightarrow> bool \<Rightarrow> u32 \<Rightarrow> byte list" where
  "read_frame h chip crc addr =
     (let f = [cmd_byte h chip addr 0, 0]
      in if crc then f @ [max14906_crc_encode f] else f)"

definition write_msg :: "max14906_hdr \<Rightarrow> u32 \<Rightarrow> bool \<Rightarrow> u32 \<Rightarrow> u32 \<Rightarrow> no_os_spi_msg" where
  "write_msg h chip crc addr val =
     \<lparr>tx_buff = write_frame h chip crc addr val, rx_buff = False,
      bytes_number = frame_len crc, cs_change = 1\<rparr>"

definition read_msg :: "max14906_hdr \<Rightarrow> u32 \<Rightarrow> bool \<Rightarrow> u32 \<Rightarrow> no_os_spi_msg" where
  "read_msg h chip crc addr =
     \<lparr>tx_buff = read_frame h chip crc addr, rx_buff = True,
      bytes_number = frame_len crc, cs_change = 1\<rparr>"

text \<open>
  The descriptor's buffer once the transport has stored the answer \<open>rx\<close> to the read
  of \<open>addr\<close> over the request.
\<close>

definition read_buf :: "max14906_hdr \<Rightarrow> max14906_desc \<Rightarrow> u32 \<Rightarrow> byte list \<Rightarrow> byte list" where
  "read_buf h desc addr rx =
     store_rx (frame_len (crc_en desc)) rx
       (read_frame h (chip_address desc) (crc_en desc) addr
          @ drop (frame_len (crc_en desc)) (buff desc))"

subsection \<open>Register operations in order\<close>

text \<open>
  A list of register operations, done in order; the first one that fails ends the list,
  and its code is the result.
\<close>

datatype reg_op = RegRead u32 | RegUpdate u32 u32 u32

definition run_op ::
  "'p platform \<Rightarrow> max14906_hdr \<Rightarrow> reg_op \<Rightarrow> max14906_desc \<Rightarrow> 'p world
     \<Rightarrow> int \<times> max14906_desc \<times> 'p world" where
  "run_op P h op desc w =
     (case op of
        RegRead addr \<Rightarrow>
          (case max14906_reg_read P h desc addr 0 w of (ret, v, desc, w) \<Rightarrow> (ret, desc, w))
      | RegUpdate addr msk val \<Rightarrow> max14906_reg_update P h desc addr msk val w)"

fun run_ops ::
  "'p platform \<Rightarrow> max14906_hdr \<Rightarrow> reg_op list \<Rightarrow> max14906_desc \<Rightarrow> 'p world
     \<Rightarrow> int \<times> max14906_desc \<times> 'p world" where
  "run_ops P h [] desc w = (0, desc, w)"
| "run_ops P h (op # ops) desc w =
     (case run_op P h op desc w of
        (ret, desc, w) \<Rightarrow> if ret \<noteq> 0 then (ret, desc, w) else run_ops P h ops desc w)"

definition func_ops :: "max14906_hdr \<Rightarrow> u32 \<Rightarrow> u32 \<Rightarrow> reg_op list" where
  "func_ops h ch func =
     (let mode = (\<lambda>m. RegUpdate (MAX14906_CONFIG_DO_REG h) (MAX14906_DO_MASK h ch)
                          (no_os_field_prep (MAX14906_DO_MASK h ch) m));
          dir = (\<lambda>v. RegUpdate (MAX14906_SETOUT_REG h) (MAX14906_CH_DIR_MASK h ch)
                          (no_os_field_prep (MAX14906_CH_DIR_MASK h ch) v))
      in if func = MAX14906_HIGH_Z h then [mode (MAX14906_PUSH_PULL h), dir 1]
         else if func = MAX14906_IN h then [mode (MAX14906_HIGH_SIDE h), dir func]
         else [dir func])"

definition climit_op :: "max14906_hdr \<Rightarrow> u32 \<Rightarrow> u32 \<Rightarrow> reg_op" where
  "climit_op h ch climit =
     RegUpdate (MAX14906_CONFIG_CURR_LIM h) (MAX14906_CL_MASK h ch)
       (no_os_field_prep (MAX14906_CL_MASK h ch) climit)"

definition init_ops :: "max14906_hdr \<Rightarrow> reg_op list" where
  "init_ops h =
     [RegRead (MAX14906_OVR_LD_REG h), RegRead (MAX14906_OPN_WIR_FLT_REG h),
      RegRead (MAX14906_SHD_VDD_FLT_REG h), RegRead (MAX14906_GLOBAL_FLT_REG h)]
     @ concat (map (\<lambda>i. func_ops h (of_nat i) (MAX14906_HIGH_Z h)
                         @ [climit_op h (of_nat i) (MAX14906_CL_130 h)]) [0..<4])"

text \<open>
  Two descriptors that differ in the content of the buffer only, and the transfers of one
  register operation: a read is one transfer, an update is the read and then the write
  of the value read, \<open>v\<close>, with the masked bits replaced.
\<close>

definition same_dev :: "max14906_desc \<Rightarrow> max14906_desc \<Rightarrow> bool" where
  "same_dev d d' = (d' = d\<lparr>buff := buff d'\<rparr> \<and> length (buff d') = length (buff d))"

definition op_events :: "max14906_hdr \<Rightarrow> max14906_desc \<Rightarrow> reg_op \<Rightarrow> u32 \<Rightarrow> event list" where
  "op_events h d op v =
     (case op of
        RegRead addr \<Rightarrow>
          [SpiTransfer (comm_desc d) (read_msg h (chip_address d) (crc_en d) addr)]
      | RegUpdate addr msk val \<Rightarrow>
          [SpiTransfer (comm_desc d) (read_msg h (chip_address d) (crc_en d) addr),
           SpiTransfer (comm_desc d)
             (write_msg h (chip_address d) (crc_en d) addr ((v AND NOT msk) OR (msk AND val)))])"

text \<open>The events a world has gained since an earlier one.\<close>

definition events_since :: "'p world \<Rightarrow> 'p world \<Rightarrow> event list" where
  "events_since w w' = drop (length (trace w)) (trace w')"

text \<open>The events that are SPI transfers.\<close>

definition is_xfer :: "event \<Rightarrow> bool" where
  "is_xfer e = (case e of SpiTransfer c msg \<Rightarrow> True | _ \<Rightarrow> False)"

subsection \<open>The steps of the initialisation\<close>

text \<open>
  The descriptor \<^verbatim>\<open>max14906_init\<close> holds once the enable line has been asked for:
  the zeroed block with the transport handle \<open>c\<close>, the \<^verbatim>\<open>crc_en\<close> of the
  parameters and the enable handle \<open>g\<close>.
\<close>

definition init_desc ::
  "max14906_init_param \<Rightarrow> handle option \<Rightarrow> handle option \<Rightarrow> max14906_desc" where
  "init_desc param c g =
     calloc_desc\<lparr>comm_desc := c, crc_en := max14906_init_param.crc_en param, enable := g\<rparr>"

text \<open>
  The release of what the initialisation holds: the enable line is removed, then the
  transport, then the descriptor is freed; what the two removals return is ignored.
\<close>

definition init_unwind ::
  "'p platform \<Rightarrow> handle option \<Rightarrow> handle option \<Rightarrow> 'p world \<Rightarrow> 'p world" where
  "init_unwind P g c w =
     no_os_free P (snd (no_os_spi_remove P c (snd (no_os_gpio_remove P g w))))"

subsection \<open>A header and a platform for the examples\<close>

text \<open>
  Modelled from the spec: an instance of the header \<^verbatim>\<open>max14906.h\<close>, which is not under
  src/, for the closed examples only; no theorem about every header rests on it. The
  fields of the command byte are those of the spec's frame table (chip address in the two
  top bits, the 5-bit register address below, RW in bit 0). The spec has no register
  address, no position of a channel's field and no enumeration value: here a channel has
  one bit each for its level, its high-side output and (four bits higher) its direction,
  and two bits each for its output mode and its current limit.
\<close>

definition example_hdr :: max14906_hdr where
  "example_hdr =
     \<lparr>MAX14906_CHIP_ADDR_MASK = 0xC0, MAX14906_ADDR_MASK = 0x3E, MAX14906_RW_MASK = 0x01,
      MAX14906_SETOUT_REG = 0x0, MAX14906_DOILEVEL_REG = 0x2, MAX14906_OVR_LD_REG = 0x4,
      MAX14906_OPN_WIR_FLT_REG = 0x5, MAX14906_SHD_VDD_FLT_REG = 0x6,
      MAX14906_GLOBAL_FLT_REG = 0x7, MAX14906_CONFIG_DO_REG = 0xD,
      MAX14906_CONFIG_CURR_LIM = 0xE,
      MAX14906_DOI_LEVEL_MASK = (\<lambda>x. push_bit (unat x) 1),
      MAX14906_HIGHO_MASK = (\<lambda>x. push_bit (unat x) 1),
      MAX14906_DO_MASK = (\<lambda>x. push_bit (2 * unat x) 3),
      MAX14906_CH_DIR_MASK = (\<lambda>x. push_bit (unat x + 4) 1),
      MAX14906_CL_MASK = (\<lambda>x. push_bit (2 * unat x) 3),
      MAX14906_HIGH_SIDE = 0, MAX14906_PUSH_PULL = 3,
      MAX14906_IN = 1, MAX14906_HIGH_Z = 2, MAX14906_CL_130 = 1\<rparr>"

text \<open>
  A transport that is an in-memory register file: the platform state maps a register
  address to its byte. It takes the register address and the RW bit from the command byte
  by the header's masks; a write stores the data byte, a read answers a status byte
  \<open>st\<close>, the register's byte and the CRC5 (decode variant) of the two. Every other
  platform function succeeds.
\<close>

definition regfile_transfer ::
  "max14906_hdr \<Rightarrow> byte \<Rightarrow> handle option \<Rightarrow> no_os_spi_msg \<Rightarrow> (u32 \<Rightarrow> byte)
     \<Rightarrow> int \<times> byte list \<times> (u32 \<Rightarrow> byte)" where
  "regfile_transfer h st c msg regs =
     (let cmd = ucast (tx_buff msg ! 0) :: u32;
          a = no_os_field_get (MAX14906_ADDR_MASK h) cmd
      in if no_os_field_get (MAX14906_RW_MASK h) cmd \<noteq> 0
         then (0, [], regs(a := tx_buff msg ! 1))
         else let r = [st, regs a]
              in (0, take (bytes_number msg) (r @ [max14906_crc_decode r]), regs))"

definition regfile_platform :: "max14906_hdr \<Rightarrow> byte \<Rightarrow> (u32 \<Rightarrow> byte) platform" where
  "regfile_platform h st =
     \<lparr>plat_calloc = (\<lambda>p. (True, p)),
      plat_free = (\<lambda>p. p),
      plat_spi_init = (\<lambda>param p. (0, Some 0, p)),
      plat_spi_transfer = regfile_transfer h st,
      plat_spi_remove = (\<lambda>c p. (0, p)),
      plat_gpio_get_optional = (\<lambda>param p. (0, param, p)),
      plat_gpio_set_value = (\<lambda>g v p. (0, p)),
      plat_gpio_remove = (\<lambda>g p. (0, p))\<rparr>"

definition example_desc :: "bool \<Rightarrow> max14906_desc" where
  "example_desc crc = calloc_desc\<lparr>comm_desc := Some 0, crc_en := crc\<rparr>"

definition example_world :: "(u32 \<Rightarrow> byte) world" where
  "example_world = \<lparr>plat = (\<lambda>a. 0), trace = []\<rparr>"

subsection \<open>The register file and the header it needs\<close>

text \<open>
  What a read-modify-write of the mask \<open>msk\<close> and the value \<open>val\<close> leaves in a
  register that holds \<open>r\<close>: the byte is widened, merged and stored back as a byte.
\<close>

definition reg_upd :: "u32 \<Rightarrow> u32 \<Rightarrow> byte \<Rightarrow> byte" where
  "reg_upd msk val r = ucast ((ucast r AND NOT msk) OR (msk AND val))"

text \<open>
  What the register file takes from a command byte: the content of the address field
  is the register it answers for, the content of the RW field says whether it stores.
  \<open>reads_ok\<close> and \<open>writes_ok\<close> say that the command bytes the driver builds for
  \<open>addr\<close> are understood as such, and name the same register.
\<close>

definition reg_ix :: "max14906_hdr \<Rightarrow> u32 \<Rightarrow> u32 \<Rightarrow> u32" where
  "reg_ix h chip addr = no_os_field_get (MAX14906_ADDR_MASK h) (ucast (cmd_byte h chip addr 0))"

definition reads_ok :: "max14906_hdr \<Rightarrow> u32 \<Rightarrow> u32 \<Rightarrow> bool" where
  "reads_ok h chip addr =
     (no_os_field_get (MAX14906_RW_MASK h) (ucast (cmd_byte h chip addr 0)) = 0)"

definition writes_ok :: "max14906_hdr \<Rightarrow> u32 \<Rightarrow> u32 \<Rightarrow> bool" where
  "writes_ok h chip addr =
     (no_os_field_get (MAX14906_RW_MASK h) (ucast (cmd_byte h chip addr 1)) \<noteq> 0
      \<and> no_os_field_get (MAX14906_ADDR_MASK h) (ucast (cmd_byte h chip addr 1))
          = reg_ix h chip addr)"

text \<open>
  What the end-to-end property needs of a header. A field is fit for a value when its
  mask lies in the low 8 bits and the value comes back out of the field it was put in.
  A header is fit when the command bytes of the seven registers \<^verbatim>\<open>max14906_init\<close>
  uses (with the chip address 0 of a fresh descriptor) are understood, the three
  configuration registers are three different registers, every channel's mode, direction
  and current-limit fields are fit for the values written, and the fields of two
  different channels do not overlap.
\<close>

definition field_ok :: "u32 \<Rightarrow> u32 \<Rightarrow> bool" where
  "field_ok m x = (m AND 0xFF = m \<and> no_os_field_get m (no_os_field_prep m x) = x)"

definition hdr_ok :: "max14906_hdr \<Rightarrow> bool" where
  "hdr_ok h =
     (let chs = [0..<MAX14906_CHANNELS];
          cfg = [MAX14906_CONFIG_DO_REG h, MAX14906_SETOUT_REG h, MAX14906_CONFIG_CURR_LIM h];
          flt = [MAX14906_OVR_LD_REG h, MAX14906_OPN_WIR_FLT_REG h,
                 MAX14906_SHD_VDD_FLT_REG h, MAX14906_GLOBAL_FLT_REG h]
      in list_all (reads_ok h 0) (flt @ cfg)
         \<and> list_all (writes_ok h 0) cfg
         \<and> distinct (map (reg_ix h 0) cfg)
         \<and> list_all (\<lambda>i. field_ok (MAX14906_DO_MASK h (of_nat i)) (MAX14906_PUSH_PULL h)
                     \<and> field_ok (MAX14906_CH_DIR_MASK h (of_nat i)) 1
                     \<and> field_ok (MAX14906_CL_MASK h (of_nat i)) (MAX14906_CL_130 h)) chs
         \<and> list_all (\<lambda>i. list_all (\<lambda>j. i = j
                     \<or> (MAX14906_DO_MASK h (of_nat i) AND MAX14906_DO_MASK h (of_nat j) = 0
                        \<and> MAX14906_CH_DIR_MASK h (of_nat i) AND MAX14906_CH_DIR_MASK h (of_nat j) = 0
                        \<and> MAX14906_CL_MASK h (of_nat i) AND MAX14906_CL_MASK h (of_nat j) = 0))
                   chs) chs)"

text \<open>
  The registers after the three updates of one channel, and what is read back from a
  channel configured as high impedance (push-pull mode, direction 1) with the current
  limit \<^verbatim>\<open>MAX14906_CL_130\<close>.
\<close>

definition chan_cfg :: "max14906_hdr \<Rightarrow> u32 \<Rightarrow> (u32 \<Rightarrow> byte) \<Rightarrow> (u32 \<Rightarrow> byte)" where
  "chan_cfg h ch regs =
     (let a = reg_ix h 0 (MAX14906_CONFIG_DO_REG h);
          regs = regs(a := reg_upd (MAX14906_DO_MASK h ch)
                    (no_os_field_prep (MAX14906_DO_MASK h ch) (MAX14906_PUSH_PULL h)) (regs a));
          a = reg_ix h 0 (MAX14906_SETOUT_REG h);
          regs = regs(a := reg_upd (MAX14906_CH_DIR_MASK h ch)
                    (no_os_field_prep (MAX14906_CH_DIR_MASK h ch) 1) (regs a));
          a = reg_ix h 0 (MAX14906_CONFIG_CURR_LIM h);
          regs = regs(a := reg_upd (MAX14906_CL_MASK h ch)
                    (no_os_field_prep (MAX14906_CL_MASK h ch) (MAX14906_CL_130 h)) (regs a))
      in regs)"

definition chan_ok :: "max14906_hdr \<Rightarrow> (u32 \<Rightarrow> byte) \<Rightarrow> u32 \<Rightarrow> bool" where
  "chan_ok h regs ch =
     (no_os_field_get (MAX14906_DO_MASK h ch)
        (ucast (regs (reg_ix h 0 (MAX14906_CONFIG_DO_REG h)))) = MAX14906_PUSH_PULL h
      \<and> no_os_field_get (MAX14906_CH_DIR_MASK h ch)
        (ucast (regs (reg_ix h 0 (MAX14906_SETOUT_REG h)))) = 1
      \<and> no_os_field_get (MAX14906_CL_MASK h ch)
        (ucast (regs (reg_ix h 0 (MAX14906_CONFIG_CURR_LIM h)))) = MAX14906_CL_130 h)"

text \<open>The registers after one operation, and the operations the register file understands.\<close>

definition apply_op :: "max14906_hdr \<Rightarrow> reg_op \<Rightarrow> (u32 \<Rightarrow> byte) \<Rightarrow> (u32 \<Rightarrow> byte)" where
  "apply_op h op regs =
     (case op of
        RegRead addr \<Rightarrow> regs
      | RegUpdate addr msk val \<Rightarrow>
          regs(reg_ix h 0 addr := reg_upd msk val (regs (reg_ix h 0 addr))))"

definition op_ok :: "max14906_hdr \<Rightarrow> reg_op \<Rightarrow> bool" where
  "op_ok h op =
     (case op of
        RegRead addr \<Rightarrow> reads_ok h 0 addr
      | RegUpdate addr msk val \<Rightarrow> reads_ok h 0 addr \<and> writes_ok h 0 addr)"

text \<open>
  Reading a channel's state back through the driver. The source has no function that
  reads the function of a channel; \<^verbatim>\<open>max14906_ch_func\<close> makes high impedance of the
  push-pull mode in \<^verbatim>\<open>CONFIG_DO\<close> and of the direction bit 1 in \<^verbatim>\<open>SETOUT\<close>,
  and these two fields are read with \<^verbatim>\<open>max14906_reg_read\<close>. The current limit is
  read with \<^verbatim>\<open>max14906_climit_get\<close>.
\<close>

definition reads_back_high_z ::
  "'p platform \<Rightarrow> max14906_hdr \<Rightarrow> max14906_desc \<Rightarrow> u32 \<Rightarrow> 'p world \<Rightarrow> bool" where
  "reads_back_high_z P h d ch w =
     (case max14906_reg_read P h d (MAX14906_CONFIG_DO_REG h) 0 w of
        (r1, v1, d1, w1) \<Rightarrow>
     case max14906_reg_read P h d1 (MAX14906_SETOUT_REG h) 0 w1 of
        (r2, v2, d2, w2) \<Rightarrow>
     r1 = 0 \<and> r2 = 0
     \<and> no_os_field_get (MAX14906_DO_MASK h ch) v1 = MAX14906_PUSH_PULL h
     \<and> no_os_field_get (MAX14906_CH_DIR_MASK h ch) v2 = 1)"

definition reads_back_climit ::
  "'p platform \<Rightarrow> max14906_hdr \<Rightarrow> max14906_desc \<Rightarrow> u32 \<Rightarrow> 'p world \<Rightarrow> u32 \<Rightarrow> bool" where
  "reads_back_climit P h d ch w climit =
     (case max14906_climit_get P h d ch (Some 0) w of
        (ret, cl, d', w') \<Rightarrow> ret = 0 \<and> cl = Some climit)"

section \<open>CRC5\<close>

lemma data_bit_eq: "drop_bit n (b::byte) AND 1 = of_bool (bit b n)"
  by (simp add: and_one_eq mod2_eq_if bit_iff_odd_drop_bit)

lemma result_bit_eq: "drop_bit 4 ((c::byte) AND 0x10) = of_bool (bit c 4)"
  by (rule bit_eqI) (auto simp add: bit_simps)

lemma crc5_body_shift: "crc5_body b i c = crc5_shift (bit b (7 - i)) c"
  unfolding crc5_body_def crc5_shift_def Let_def data_bit_eq result_bit_eq
  by (cases "bit b (7 - i)"; cases "bit c 4"; simp add: xor.commute)

lemma crc5_loop_fold:
  "crc5_loop b i n c = fold crc5_shift (map (\<lambda>k. bit b (7 - k)) [i..<n]) c"
proof (induction b i n c rule: crc5_loop.induct)
  case (1 b i n c)
  show ?case
  proof (cases "i < n")
    case True
    then show ?thesis
      using 1 by (subst crc5_loop.simps) (simp add: upt_conv_Cons crc5_body_shift)
  next
    case False
    then show ?thesis by (subst crc5_loop.simps) simp
  qed
qed

lemma crc5_shift_5bit: "crc5_shift d r AND 0x1f = crc5_shift d r"
  unfolding crc5_shift_def Let_def
  by (simp add: bit.conj_xor_distrib2 and.assoc)

lemma fold_5bit: "bs \<noteq> [] \<Longrightarrow> fold crc5_shift bs c AND 0x1f = fold crc5_shift bs c"
  by (induction bs arbitrary: c rule: rev_induct) (simp_all add: crc5_shift_5bit)

lemma pad_bits: "map (\<lambda>k. bit (0::byte) (7 - k)) [0..<3] = [False, False, False]"
  by (simp add: upt_rec)

lemma crc5_div_append3:
  "crc5_div (as @ bs @ cs) = fold crc5_shift cs (fold crc5_shift bs (fold crc5_shift as 0x1f))"
  by (simp add: crc5_div_def)

lemma drop2_msb_bits: "drop 2 (msb_bits c) = map (\<lambda>k. bit c (7 - k)) [2..<8]"
proof -
  have "drop 2 [0..<8] = [2..<8]" by code_simp
  then show ?thesis by (simp only: msb_bits_def drop_map)
qed

lemma encode_div:
  "max14906_crc_encode [c, d] = crc5_div (msb_bits c @ msb_bits d @ [False, False, False])"
  unfolding max14906_crc_encode_def Let_def crc5_loop_fold crc5_div_append3 pad_bits msb_bits_def
  by simp

lemma decode_div:
  "max14906_crc_decode [c, d] =
     crc5_div (drop 2 (msb_bits c) @ msb_bits d @ [False, False, False])"
  unfolding max14906_crc_decode_def Let_def crc5_loop_fold crc5_div_append3 pad_bits
    drop2_msb_bits
  unfolding msb_bits_def
  by simp

lemma crc5_div_5bit:
  assumes "bs \<noteq> []"
  shows "crc5_div bs < 32"
proof -
  from assms have "crc5_div bs AND 0x1f = crc5_div bs"
    unfolding crc5_div_def by (rule fold_5bit)
  moreover have "crc5_div bs AND 0x1f \<le> 0x1f"
    by (rule word_and_le1)
  ultimately have "crc5_div bs \<le> 0x1f" by simp
  then show ?thesis by (simp add: word_le_nat_alt word_less_nat_alt)
qed

text \<open>
  C2, as the source has it. For every two bytes \<open>c\<close> (command) and \<open>d\<close> (data),
  \<^verbatim>\<open>max14906_crc_encode\<close> is the bit-serial division, from 0x1F by 0x15, of the 8 bits of
  \<open>c\<close> most significant first, then the 8 bits of \<open>d\<close> most significant first, then 3
  zero bits; \<^verbatim>\<open>max14906_crc_decode\<close> is the same division over the last 6 bits of
  \<open>c\<close> in that order (bits 5 down to 0: the two bits left out are the two most
  significant ones, 7 and 6), then \<open>d\<close> and the pad; both results are below 32.
\<close>

theorem crc5_encode_decode_division:
  "max14906_crc_encode [c, d] = crc5_div (msb_bits c @ msb_bits d @ [False, False, False])
   \<and> max14906_crc_decode [c, d] =
       crc5_div (drop 2 (msb_bits c) @ msb_bits d @ [False, False, False])
   \<and> max14906_crc_encode [c, d] < 32
   \<and> max14906_crc_decode [c, d] < 32"
  by (simp add: encode_div decode_div crc5_div_5bit)

text \<open>
  C2, as the claim words it, fails: were the two low bits of the command byte skipped and
  its 6 high bits divided, the command bytes 0x01 and 0x00 would give the same value with
  the data byte 0x00. The source reads bit 0 of the command byte, and the values differ
  (0x14 for the source, 0x16 for the division without the low bits).
\<close>

theorem crc5_decode_low_bits_counterexample:
  "max14906_crc_decode [0x01, 0x00] = 0x14
   \<and> crc5_div (take 6 (msb_bits 0x01) @ msb_bits 0x00 @ [False, False, False]) = 0x16
   \<and> max14906_crc_decode [0x01, 0x00] \<noteq> max14906_crc_decode [0x00, 0x00]"
  by code_simp

section \<open>Register access\<close>

lemma ucast_or_byte: "(ucast ((ucast (b::byte) :: u32) OR p) :: byte) = b OR ucast p"
  by (rule bit_eqI) (auto simp add: bit_simps)

lemma ucast_or_down: "(ucast ((p::u32) OR q) :: byte) = ucast p OR ucast q"
  by (rule bit_eqI) (auto simp add: bit_simps)

lemma cmd_byte_code:
  "(ucast ((ucast (ucast ((ucast (ucast (no_os_field_prep cm chip) :: byte) :: u32)
        OR no_os_field_prep am addr) :: byte) :: u32) OR no_os_field_prep rm rw) :: byte)
   = ucast (no_os_field_prep cm chip OR no_os_field_prep am addr OR no_os_field_prep rm rw)"
  by (simp only: ucast_or_byte) (simp add: ucast_or_down or.assoc)

lemma crc_encode_2: "max14906_crc_encode (a # b # c # xs) = max14906_crc_encode [a, b]"
  by (simp add: max14906_crc_encode_def)

lemma crc_decode_2: "max14906_crc_decode (a # b # c # xs) = max14906_crc_decode [a, b]"
  by (simp add: max14906_crc_decode_def)

lemma length3E: "length xs = 3 \<Longrightarrow> \<exists>a b c. xs = [a, b, c]"
  by (cases xs; simp; rename_tac ys; case_tac ys; simp; rename_tac zs; case_tac zs; simp)

lemma reg_write_eq:
  assumes "length (buff desc) = 3"
  shows "max14906_reg_write P h desc addr val w =
     (let msg = write_msg h (chip_address desc) (crc_en desc) addr val
      in case no_os_spi_transfer P (comm_desc desc) msg w of
           (ret, rx, w') \<Rightarrow>
             (ret, desc\<lparr>buff := tx_buff msg @ drop (frame_len (crc_en desc)) (buff desc)\<rparr>, w'))"
proof -
  from assms obtain a b c where b: "buff desc = [a, b, c]" using length3E [OF assms] by blast
  show ?thesis
    by (simp add: max14906_reg_write_def b Let_def cmd_byte_code write_msg_def write_frame_def
        frame_len_def MAX14906_FRAME_SIZE_def cmd_byte_def crc_encode_2 split: prod.splits)
qed

lemma reg_read_eq:
  assumes "length (buff desc) = 3"
  shows "max14906_reg_read P h desc addr val w =
     (let msg = read_msg h (chip_address desc) (crc_en desc) addr
      in case no_os_spi_transfer P (comm_desc desc) msg w of
           (ret, rx, w') \<Rightarrow>
             let buf = read_buf h desc addr rx; d = desc\<lparr>buff := buf\<rparr>
             in if ret \<noteq> 0 then (ret, val, d, w')
                else if crc_en desc \<and> max14906_crc_decode buf \<noteq> buf ! 2
                     then (- EINVAL, val, d, w')
                else (0, ucast (buf ! 1), d, w'))"
proof -
  from assms obtain a b c where b: "buff desc = [a, b, c]" using length3E [OF assms] by blast
  show ?thesis
    by (simp add: max14906_reg_read_def b Let_def cmd_byte_code read_msg_def read_frame_def
        frame_len_def MAX14906_FRAME_SIZE_def cmd_byte_def crc_encode_2 memset0_def read_buf_def
        split: prod.splits)
qed

lemma read_buf_length: "length (buff desc) = 3 \<Longrightarrow> length (read_buf h desc addr rx) = 3"
  by (auto simp add: read_buf_def store_rx_def read_frame_def frame_len_def Let_def min_def)


section \<open>Register operations and their transfers\<close>

lemma same_dev_refl [simp]: "same_dev d d"
  by (simp add: same_dev_def)

lemma same_dev_trans: "same_dev a b \<Longrightarrow> same_dev b c \<Longrightarrow> same_dev a c"
  by (cases a; cases b; cases c) (simp add: same_dev_def)

lemma same_dev_fields:
  "same_dev d d' \<Longrightarrow> chip_address d' = chip_address d \<and> comm_desc d' = comm_desc d
     \<and> enable d' = enable d \<and> crc_en d' = crc_en d \<and> length (buff d') = length (buff d)"
  by (cases d; cases d') (simp add: same_dev_def)

lemma same_dev_buff: "length b = length (buff d) \<Longrightarrow> same_dev d (d\<lparr>buff := b\<rparr>)"
  by (simp add: same_dev_def)

lemma events_since_refl [simp]: "events_since w w = []"
  by (simp add: events_since_def)

lemma events_since_app: "trace w' = trace w @ es \<Longrightarrow> events_since w w' = es"
  by (simp add: events_since_def)

lemma write_frame_length: "length (write_frame h chip crc addr val) = frame_len crc"
  by (simp add: write_frame_def frame_len_def Let_def)

lemma reg_write_result:
  assumes len: "length (buff d) = 3"
    and run: "max14906_reg_write P h d addr val w = (ret, d', w')"
  shows "trace w' = trace w @ [SpiTransfer (comm_desc d) (write_msg h (chip_address d) (crc_en d) addr val)]
         \<and> same_dev d d'
         \<and> ret = fst (plat_spi_transfer P (comm_desc d)
                         (write_msg h (chip_address d) (crc_en d) addr val) (plat w))"
  using run len
  by (auto simp add: reg_write_eq [OF len] Let_def no_os_spi_transfer_def same_dev_def
      write_msg_def write_frame_length frame_len_def split: prod.splits)

lemma reg_read_result:
  assumes len: "length (buff d) = 3"
    and run: "max14906_reg_read P h d addr val w = (ret, v, d', w')"
  shows "trace w' = trace w @ [SpiTransfer (comm_desc d) (read_msg h (chip_address d) (crc_en d) addr)]
         \<and> same_dev d d' \<and> (ret \<noteq> 0 \<longrightarrow> v = val)"
  using run len
  by (auto simp add: reg_read_eq [OF len] Let_def no_os_spi_transfer_def same_dev_def
      read_buf_length split: prod.splits if_splits)

lemma reg_update_result:
  assumes len: "length (buff d) = 3"
    and run: "max14906_reg_update P h d addr msk val w = (ret, d', w')"
  shows "same_dev d d'
         \<and> (\<exists>v. (ret = 0 \<longrightarrow> events_since w w' = op_events h d (RegUpdate addr msk val) v)
                \<and> prefix (events_since w w') (op_events h d (RegUpdate addr msk val) v))"
proof -
  obtain r1 v d1 w1 where rd: "max14906_reg_read P h d addr 0 w = (r1, v, d1, w1)"
    by (metis prod_cases4)
  note R = reg_read_result [OF len rd]
  from R have sd1: "same_dev d d1" by simp
  then have len1: "length (buff d1) = 3" using len by (simp add: same_dev_fields)
  show ?thesis
  proof (cases "r1 = 0")
    case False
    with run rd have "ret = r1" "d' = d1" "w' = w1"
      by (simp_all add: max14906_reg_update_def)
    with R False show ?thesis
      by (auto simp add: op_events_def events_since_app intro!: exI [of _ 0])
  next
    case True
    with run rd have wr: "max14906_reg_write P h d1 addr ((v AND NOT msk) OR (msk AND val)) w1
        = (ret, d', w')"
      by (simp add: max14906_reg_update_def Let_def)
    note W = reg_write_result [OF len1 wr]
    from W sd1 have "same_dev d d'" by (blast intro: same_dev_trans)
    moreover from R W sd1 have "events_since w w' = op_events h d (RegUpdate addr msk val) v"
      by (simp add: events_since_app op_events_def same_dev_fields)
    ultimately show ?thesis by auto
  qed
qed


lemma run_op_result:
  assumes len: "length (buff d) = 3"
    and run: "run_op P h op d w = (ret, d', w')"
  shows "same_dev d d'
         \<and> (\<exists>v. (ret = 0 \<longrightarrow> events_since w w' = op_events h d op v)
                \<and> prefix (events_since w w') (op_events h d op v))"
proof (cases op)
  case (RegRead addr)
  with run obtain v where rd: "max14906_reg_read P h d addr 0 w = (ret, v, d', w')"
    by (auto simp add: run_op_def split: prod.splits)
  from reg_read_result [OF len rd] show ?thesis
    by (auto simp add: RegRead op_events_def events_since_app)
next
  case (RegUpdate addr msk val)
  with run have "max14906_reg_update P h d addr msk val w = (ret, d', w')"
    by (simp add: run_op_def)
  from reg_update_result [OF len this] show ?thesis
    by (simp add: RegUpdate)
qed

lemma op_events_same_dev: "same_dev d d' \<Longrightarrow> op_events h d' op v = op_events h d op v"
  by (simp add: op_events_def same_dev_fields split: reg_op.splits)

lemma run_op_trace_grows:
  assumes "length (buff d) = 3" "run_op P h op d w = (ret, d', w')"
  shows "\<exists>es. trace w' = trace w @ es"
proof (cases op)
  case (RegRead addr)
  with assms obtain v where rd: "max14906_reg_read P h d addr 0 w = (ret, v, d', w')"
    by (auto simp add: run_op_def split: prod.splits)
  from reg_read_result [OF assms(1) rd] show ?thesis by blast
next
  case (RegUpdate addr msk val)
  with assms have up: "max14906_reg_update P h d addr msk val w = (ret, d', w')"
    by (simp add: run_op_def)
  obtain r1 v d1 w1 where rd: "max14906_reg_read P h d addr 0 w = (r1, v, d1, w1)"
    by (metis prod_cases4)
  note R = reg_read_result [OF assms(1) rd]
  show ?thesis
  proof (cases "r1 = 0")
    case False
    with up rd have "w' = w1" by (simp add: max14906_reg_update_def)
    with R show ?thesis by blast
  next
    case True
    with up rd have wr: "max14906_reg_write P h d1 addr ((v AND NOT msk) OR (msk AND val)) w1
        = (ret, d', w')"
      by (simp add: max14906_reg_update_def Let_def)
    from R have "same_dev d d1" by simp
    then have "length (buff d1) = 3" using assms(1) by (simp add: same_dev_fields)
    from reg_write_result [OF this wr] R show ?thesis by simp
  qed
qed

lemma events_since_trans:
  "trace w1 = trace w @ es \<Longrightarrow> trace w2 = trace w1 @ fs
     \<Longrightarrow> events_since w w2 = events_since w w1 @ events_since w1 w2"
  by (simp add: events_since_def)

lemma run_ops_result:
  assumes len: "length (buff d) = 3"
    and run: "run_ops P h ops d w = (ret, d', w')"
  shows "same_dev d d' \<and> (\<exists>es. trace w' = trace w @ es)
         \<and> (ret = 0 \<longrightarrow> (\<exists>vs. length vs = length ops
                \<and> events_since w w' = concat (map2 (op_events h d) ops vs)))"
  using len run
proof (induction ops arbitrary: d w)
  case Nil
  then show ?case by simp
next
  case (Cons op ops)
  obtain r1 d1 w1 where one: "run_op P h op d w = (r1, d1, w1)"
    by (metis prod_cases3)
  note O = run_op_result [OF Cons.prems(1) one]
  from run_op_trace_grows [OF Cons.prems(1) one] obtain es where es: "trace w1 = trace w @ es"
    by blast
  from O have sd1: "same_dev d d1" by simp
  then have len1: "length (buff d1) = 3" using Cons.prems(1) by (simp add: same_dev_fields)
  show ?case
  proof (cases "r1 = 0")
    case False
    with Cons.prems(2) one have "ret = r1" "d' = d1" "w' = w1" by simp_all
    with False sd1 es show ?thesis by auto
  next
    case True
    with Cons.prems(2) one have rest: "run_ops P h ops d1 w1 = (ret, d', w')" by simp
    note IH = Cons.IH [OF len1 rest]
    from IH obtain fs where fs: "trace w' = trace w1 @ fs" by blast
    from IH sd1 have sd: "same_dev d d'" by (blast intro: same_dev_trans)
    have "\<exists>vs. length vs = length (op # ops)
            \<and> events_since w w' = concat (map2 (op_events h d) (op # ops) vs)" if "ret = 0"
    proof -
      from IH that obtain vs where vs: "length vs = length ops"
          "events_since w1 w' = concat (map2 (op_events h d1) ops vs)"
        by blast
      from O True obtain v where v: "events_since w w1 = op_events h d op v" by blast
      have "map2 (op_events h d1) ops vs = map2 (op_events h d) ops vs"
        by (simp add: op_events_same_dev [OF sd1])
      with vs v events_since_trans [OF es fs]
      have "events_since w w' = concat (map2 (op_events h d) (op # ops) (v # vs))"
        by simp
      with vs(1) show ?thesis by (intro exI [of _ "v # vs"]) simp
    qed
    with sd es fs show ?thesis by auto
  qed
qed

lemma ch_func_run_ops:
  "max14906_ch_func P h desc ch func w = run_ops P h (func_ops h ch func) desc w"
  by (simp add: max14906_ch_func_def func_ops_def run_op_def Let_def split: prod.splits)

lemma climit_set_run_ops:
  "max14906_climit_set P h desc ch climit w = run_ops P h [climit_op h ch climit] desc w"
  by (simp add: max14906_climit_set_def climit_op_def run_op_def split: prod.splits)

lemma run_ops_append:
  "run_ops P h (xs @ ys) d w =
     (case run_ops P h xs d w of
        (ret, d', w') \<Rightarrow> if ret \<noteq> 0 then (ret, d', w') else run_ops P h ys d' w')"
  by (induction xs arbitrary: d w) (auto split: prod.splits)

lemma init_channels_run_ops:
  "init_channels P h i d w =
     run_ops P h (concat (map (\<lambda>i. func_ops h (of_nat i) (MAX14906_HIGH_Z h)
                                  @ [climit_op h (of_nat i) (MAX14906_CL_130 h)]) [i..<4])) d w"
proof (induction P h i d w rule: init_channels.induct)
  case (1 P h i d w)
  show ?case
  proof (cases "i < 4")
    case True
    then have "[i..<4] = i # [Suc i..<4]" by (simp add: upt_conv_Cons)
    with True 1 show ?thesis
      by (subst init_channels.simps)
        (auto simp add: MAX14906_CHANNELS_def run_ops_append ch_func_run_ops
          climit_set_run_ops split: prod.splits)
  next
    case False
    then show ?thesis
      by (subst init_channels.simps) (simp add: MAX14906_CHANNELS_def)
  qed
qed

lemma reg_read_val:
  "max14906_reg_read P h d addr val w =
     (case max14906_reg_read P h d addr 0 w of
        (ret, v, d', w') \<Rightarrow> (ret, if ret \<noteq> 0 then val else v, d', w'))"
  by (simp add: max14906_reg_read_def Let_def EINVAL_def split: prod.splits)

lemma read_step:
  "(case max14906_reg_read P h d addr val w of
      (ret, v, d', w') \<Rightarrow> if ret \<noteq> 0 then (ret, d', w') else run_ops P h ops d' w')
   = run_ops P h (RegRead addr # ops) d w"
  by (subst reg_read_val) (simp add: run_op_def split: prod.splits)

lemma init_configure_run_ops:
  "init_configure P h d w = run_ops P h (init_ops h) d w"
  by (simp only: init_configure_def init_channels_run_ops read_step init_ops_def append.simps)


section \<open>The register file\<close>

lemma byte_mask_bits:
  assumes "(m::u32) AND 0xFF = m" and "bit m n"
  shows "n < 8"
proof -
  have ff: "(0xFF::u32) = mask 8" by (simp add: mask_eq_exp_minus_1)
  from assms have "bit (m AND mask 8) n" by (simp add: ff)
  then show ?thesis by (simp add: bit_and_iff bit_mask_iff)
qed

lemma ucast_byte_and_mask:
  assumes "m AND 0xFF = m"
  shows "(ucast (ucast (z::u32) :: byte) :: u32) AND m = z AND m"
proof (rule bit_eqI)
  fix n
  show "bit ((ucast (ucast z :: byte) :: u32) AND m) n = bit (z AND m) n"
    using byte_mask_bits [OF assms, of n] by (auto simp add: bit_simps)
qed

lemma field_get_reg_upd_same:
  assumes "m AND 0xFF = m"
  shows "no_os_field_get m (ucast (reg_upd m (no_os_field_prep m x) r))
           = no_os_field_get m (no_os_field_prep m x)"
proof -
  have "((ucast r AND NOT m) OR (m AND no_os_field_prep m x)) AND m = no_os_field_prep m x AND m"
    by (rule bit_eqI) (auto simp add: bit_simps no_os_field_prep_def)
  then show ?thesis
    by (simp add: no_os_field_get_def reg_upd_def ucast_byte_and_mask [OF assms])
qed

lemma field_get_reg_upd_other:
  assumes "m AND 0xFF = m" and "m AND m' = 0"
  shows "no_os_field_get m (ucast (reg_upd m' v r)) = no_os_field_get m (ucast r)"
proof -
  have dis: "\<not> (bit m n \<and> bit m' n)" for n
  proof -
    from assms(2) have "bit (m AND m') n = bit (0::u32) n" by simp
    then show ?thesis by (simp add: bit_and_iff)
  qed
  have "((ucast r AND NOT m') OR (m' AND v)) AND m = ucast r AND m"
    by (rule bit_eqI) (use dis in \<open>auto simp add: bit_simps\<close>)
  then show ?thesis
    by (simp add: no_os_field_get_def reg_upd_def ucast_byte_and_mask [OF assms(1)])
qed

lemma regfile_read:
  assumes len: "length (buff d) = 3"
    and rw: "reads_ok h (chip_address d) addr"
  shows "\<exists>d'. max14906_reg_read (regfile_platform h st) h d addr val w
           = (0, ucast (plat w (reg_ix h (chip_address d) addr)), d',
              \<lparr>plat = plat w, trace = trace w @ [SpiTransfer (comm_desc d)
                  (read_msg h (chip_address d) (crc_en d) addr)]\<rparr>)
         \<and> same_dev d d'"
proof -
  from length3E [OF len] obtain a b c where b: "buff d = [a, b, c]" by blast
  from rw have rw': "no_os_field_get (MAX14906_RW_MASK h)
      (ucast (cmd_byte h (chip_address d) addr 0)) = 0"
    by (simp add: reads_ok_def)
  show ?thesis
  proof (cases "crc_en d")
    case True
    then show ?thesis
      by (simp add: reg_read_eq [OF len] Let_def no_os_spi_transfer_def regfile_platform_def
          regfile_transfer_def read_msg_def read_frame_def rw' reg_ix_def read_buf_def
          store_rx_def frame_len_def crc_decode_2 b same_dev_def)
  next
    case False
    then show ?thesis
      by (simp add: reg_read_eq [OF len] Let_def no_os_spi_transfer_def regfile_platform_def
          regfile_transfer_def read_msg_def read_frame_def rw' reg_ix_def read_buf_def
          store_rx_def frame_len_def b same_dev_def)
  qed
qed

lemma regfile_write:
  assumes len: "length (buff d) = 3"
    and rw: "writes_ok h (chip_address d) addr"
  shows "\<exists>d'. max14906_reg_write (regfile_platform h st) h d addr val w
           = (0, d',
              \<lparr>plat = (plat w)(reg_ix h (chip_address d) addr := ucast val),
               trace = trace w @ [SpiTransfer (comm_desc d)
                  (write_msg h (chip_address d) (crc_en d) addr val)]\<rparr>)
         \<and> same_dev d d'"
proof -
  from length3E [OF len] obtain a b c where b: "buff d = [a, b, c]" by blast
  from rw show ?thesis
    by (simp add: reg_write_eq [OF len] Let_def no_os_spi_transfer_def regfile_platform_def
        regfile_transfer_def write_msg_def write_frame_def writes_ok_def
        frame_len_def b same_dev_def)
qed

lemma regfile_update:
  assumes len: "length (buff d) = 3"
    and r: "reads_ok h (chip_address d) addr"
    and wr: "writes_ok h (chip_address d) addr"
  shows "\<exists>d' es. max14906_reg_update (regfile_platform h st) h d addr msk val w
           = (0, d',
              \<lparr>plat = (plat w)(reg_ix h (chip_address d) addr :=
                        reg_upd msk val (plat w (reg_ix h (chip_address d) addr))),
               trace = trace w @ es\<rparr>)
         \<and> same_dev d d'"
proof -
  from regfile_read [OF len r, of st 0 w] obtain d1 where
    rd: "max14906_reg_read (regfile_platform h st) h d addr 0 w
           = (0, ucast (plat w (reg_ix h (chip_address d) addr)), d1,
              \<lparr>plat = plat w, trace = trace w @ [SpiTransfer (comm_desc d)
                  (read_msg h (chip_address d) (crc_en d) addr)]\<rparr>)"
    and sd1: "same_dev d d1" by blast
  from sd1 len have len1: "length (buff d1) = 3" and chip: "chip_address d1 = chip_address d"
    by (simp_all add: same_dev_fields)
  from wr chip have wr1: "writes_ok h (chip_address d1) addr" by simp
  let ?w1 = "\<lparr>plat = plat w, trace = trace w @ [SpiTransfer (comm_desc d)
                  (read_msg h (chip_address d) (crc_en d) addr)]\<rparr>"
  let ?v = "(ucast (plat w (reg_ix h (chip_address d) addr)) AND NOT msk) OR (msk AND val)"
  from regfile_write [OF len1 wr1, of st ?v ?w1] obtain d2 where
    w2: "max14906_reg_write (regfile_platform h st) h d1 addr ?v ?w1
           = (0, d2,
              \<lparr>plat = (plat ?w1)(reg_ix h (chip_address d1) addr := ucast ?v),
               trace = trace ?w1 @ [SpiTransfer (comm_desc d1)
                  (write_msg h (chip_address d1) (crc_en d1) addr ?v)]\<rparr>)"
    and sd2: "same_dev d1 d2" by blast
  from sd1 sd2 have "same_dev d d2" by (rule same_dev_trans)
  then show ?thesis
    by (simp add: max14906_reg_update_def rd Let_def w2 reg_upd_def chip)
qed

lemma hdr_ok_example: "hdr_ok example_hdr"
  by code_simp

lemma hdr_ok_regs:
  assumes "hdr_ok h"
  shows "reads_ok h 0 (MAX14906_OVR_LD_REG h)" "reads_ok h 0 (MAX14906_OPN_WIR_FLT_REG h)"
    "reads_ok h 0 (MAX14906_SHD_VDD_FLT_REG h)" "reads_ok h 0 (MAX14906_GLOBAL_FLT_REG h)"
    "reads_ok h 0 (MAX14906_CONFIG_DO_REG h)" "reads_ok h 0 (MAX14906_SETOUT_REG h)"
    "reads_ok h 0 (MAX14906_CONFIG_CURR_LIM h)"
    "writes_ok h 0 (MAX14906_CONFIG_DO_REG h)" "writes_ok h 0 (MAX14906_SETOUT_REG h)"
    "writes_ok h 0 (MAX14906_CONFIG_CURR_LIM h)"
    "reg_ix h 0 (MAX14906_CONFIG_DO_REG h) \<noteq> reg_ix h 0 (MAX14906_SETOUT_REG h)"
    "reg_ix h 0 (MAX14906_CONFIG_DO_REG h) \<noteq> reg_ix h 0 (MAX14906_CONFIG_CURR_LIM h)"
    "reg_ix h 0 (MAX14906_SETOUT_REG h) \<noteq> reg_ix h 0 (MAX14906_CONFIG_CURR_LIM h)"
  using assms by (simp_all add: hdr_ok_def Let_def)

lemma hdr_ok_fields:
  assumes "hdr_ok h" "i < 4"
  shows "field_ok (MAX14906_DO_MASK h (of_nat i)) (MAX14906_PUSH_PULL h)"
    "field_ok (MAX14906_CH_DIR_MASK h (of_nat i)) 1"
    "field_ok (MAX14906_CL_MASK h (of_nat i)) (MAX14906_CL_130 h)"
  using assms by (simp_all add: hdr_ok_def Let_def list_all_iff MAX14906_CHANNELS_def)

lemma hdr_ok_disjoint:
  assumes "hdr_ok h" "i < 4" "j < 4" "i \<noteq> j"
  shows "MAX14906_DO_MASK h (of_nat i) AND MAX14906_DO_MASK h (of_nat j) = 0"
    "MAX14906_CH_DIR_MASK h (of_nat i) AND MAX14906_CH_DIR_MASK h (of_nat j) = 0"
    "MAX14906_CL_MASK h (of_nat i) AND MAX14906_CL_MASK h (of_nat j) = 0"
proof -
  from assms(1) have
    "\<forall>i\<in>set [0..<4]. \<forall>j\<in>set [0..<4]. i = j
        \<or> (MAX14906_DO_MASK h (of_nat i) AND MAX14906_DO_MASK h (of_nat j) = 0
           \<and> MAX14906_CH_DIR_MASK h (of_nat i) AND MAX14906_CH_DIR_MASK h (of_nat j) = 0
           \<and> MAX14906_CL_MASK h (of_nat i) AND MAX14906_CL_MASK h (of_nat j) = 0)"
    unfolding hdr_ok_def Let_def list_all_iff MAX14906_CHANNELS_def by blast
  moreover from assms(2,3) have "i \<in> set [0..<4]" "j \<in> set [0..<4]" by simp_all
  ultimately have "i = j
        \<or> (MAX14906_DO_MASK h (of_nat i) AND MAX14906_DO_MASK h (of_nat j) = 0
           \<and> MAX14906_CH_DIR_MASK h (of_nat i) AND MAX14906_CH_DIR_MASK h (of_nat j) = 0
           \<and> MAX14906_CL_MASK h (of_nat i) AND MAX14906_CL_MASK h (of_nat j) = 0)"
    by blast
  with assms(4) show
    "MAX14906_DO_MASK h (of_nat i) AND MAX14906_DO_MASK h (of_nat j) = 0"
    "MAX14906_CH_DIR_MASK h (of_nat i) AND MAX14906_CH_DIR_MASK h (of_nat j) = 0"
    "MAX14906_CL_MASK h (of_nat i) AND MAX14906_CL_MASK h (of_nat j) = 0"
    by simp_all
qed

lemma chan_cfg_establishes:
  assumes "hdr_ok h" "i < 4"
  shows "chan_ok h (chan_cfg h (of_nat i) regs) (of_nat i)"
  using hdr_ok_fields [OF assms] hdr_ok_regs(11-13) [OF assms(1)]
  by (simp add: chan_ok_def chan_cfg_def Let_def field_ok_def field_get_reg_upd_same)

lemma chan_cfg_preserves:
  assumes "hdr_ok h" "i < 4" "j < 4" "i \<noteq> j" "chan_ok h regs (of_nat j)"
  shows "chan_ok h (chan_cfg h (of_nat i) regs) (of_nat j)"
  using hdr_ok_fields [OF assms(1,3)] hdr_ok_regs(11-13) [OF assms(1)]
    hdr_ok_disjoint [OF assms(1,3,2)] assms(4,5)
  by (simp add: chan_ok_def chan_cfg_def Let_def field_ok_def field_get_reg_upd_other)

lemma fold_chan_cfg_keeps:
  assumes "hdr_ok h" "j < 4" "chan_ok h regs (of_nat j)" "j \<notin> set is" "\<forall>i \<in> set is. i < 4"
  shows "chan_ok h (fold (\<lambda>i. chan_cfg h (of_nat i)) is regs) (of_nat j)"
  using assms(3-5)
proof (induction "is" arbitrary: regs)
  case Nil
  then show ?case by simp
next
  case (Cons i "is")
  from Cons.prems have "chan_ok h (chan_cfg h (of_nat i) regs) (of_nat j)"
    by (intro chan_cfg_preserves [OF assms(1) _ assms(2)]) auto
  with Cons show ?case by simp
qed

lemma fold_chan_cfg_ok:
  assumes "hdr_ok h" "j \<in> set is" "\<forall>i \<in> set is. i < 4" "distinct is"
  shows "chan_ok h (fold (\<lambda>i. chan_cfg h (of_nat i)) is regs) (of_nat j)"
  using assms(2-4)
proof (induction "is" arbitrary: regs)
  case Nil
  then show ?case by simp
next
  case (Cons i "is")
  show ?case
  proof (cases "j = i")
    case True
    with Cons.prems have "j < 4" "j \<notin> set is" "\<forall>i \<in> set is. i < 4" by auto
    with True show ?thesis
      by (simp add: fold_chan_cfg_keeps [OF assms(1)] chan_cfg_establishes [OF assms(1)])
  next
    case False
    with Cons show ?thesis by simp
  qed
qed

lemma regfile_run_op:
  assumes len: "length (buff d) = 3" and chip: "chip_address d = 0" and ok: "op_ok h op"
  shows "\<exists>d' es. run_op (regfile_platform h st) h op d w
           = (0, d', \<lparr>plat = apply_op h op (plat w), trace = trace w @ es\<rparr>)
         \<and> same_dev d d'"
proof (cases op)
  case (RegRead addr)
  with ok chip have "reads_ok h (chip_address d) addr" by (simp add: op_ok_def)
  from regfile_read [OF len this, of st 0 w] show ?thesis
    by (auto simp add: RegRead run_op_def apply_op_def)
next
  case (RegUpdate addr msk val)
  with ok chip have "reads_ok h (chip_address d) addr" "writes_ok h (chip_address d) addr"
    by (simp_all add: op_ok_def)
  from regfile_update [OF len this, of st msk val w] show ?thesis
    by (auto simp add: RegUpdate run_op_def apply_op_def chip)
qed

lemma regfile_run_ops:
  assumes len: "length (buff d) = 3" and chip: "chip_address d = 0"
    and ok: "list_all (op_ok h) ops"
  shows "\<exists>d' es. run_ops (regfile_platform h st) h ops d w
           = (0, d', \<lparr>plat = fold (apply_op h) ops (plat w), trace = trace w @ es\<rparr>)
         \<and> same_dev d d'"
  using len chip ok
proof (induction ops arbitrary: d w)
  case Nil
  show ?case by (cases w) simp
next
  case (Cons op ops)
  from Cons.prems(3) have ok1: "op_ok h op" and oks: "list_all (op_ok h) ops" by simp_all
  from regfile_run_op [OF Cons.prems(1,2) ok1, of st w] obtain d1 es where
    one: "run_op (regfile_platform h st) h op d w
           = (0, d1, \<lparr>plat = apply_op h op (plat w), trace = trace w @ es\<rparr>)"
    and sd1: "same_dev d d1" by blast
  from sd1 Cons.prems(1,2) have len1: "length (buff d1) = 3" and chip1: "chip_address d1 = 0"
    by (simp_all add: same_dev_fields)
  from Cons.IH [OF len1 chip1 oks, of "\<lparr>plat = apply_op h op (plat w), trace = trace w @ es\<rparr>"]
  obtain d2 fs where
    rest: "run_ops (regfile_platform h st) h ops d1
             \<lparr>plat = apply_op h op (plat w), trace = trace w @ es\<rparr>
           = (0, d2, \<lparr>plat = fold (apply_op h) ops (apply_op h op (plat w)),
                       trace = (trace w @ es) @ fs\<rparr>)"
    and sd2: "same_dev d1 d2" by auto
  from sd1 sd2 have "same_dev d d2" by (rule same_dev_trans)
  then show ?case by (simp add: one rest)
qed

lemma init_ops_ok: "hdr_ok h \<Longrightarrow> list_all (op_ok h) (init_ops h)"
  by (simp add: init_ops_def func_ops_def climit_op_def op_ok_def hdr_ok_regs list_all_iff)

lemma init_ops_apply:
  "fold (apply_op h) (init_ops h) regs = fold (\<lambda>i. chan_cfg h (of_nat i)) [0..<4] regs"
proof -
  have one: "apply_op h (climit_op h ch (MAX14906_CL_130 h))
                (fold (apply_op h) (func_ops h ch (MAX14906_HIGH_Z h)) r)
             = chan_cfg h ch r" for ch r
    by (simp add: func_ops_def climit_op_def apply_op_def chan_cfg_def Let_def)
  have "fold (apply_op h) (concat (map (\<lambda>i. func_ops h (of_nat i) (MAX14906_HIGH_Z h)
                         @ [climit_op h (of_nat i) (MAX14906_CL_130 h)]) is)) r
        = fold (\<lambda>i. chan_cfg h (of_nat i)) is r" for "is" r
    by (induction "is" arbitrary: r) (simp_all add: one)
  then show ?thesis
    by (simp add: init_ops_def apply_op_def del: upt_Suc)
qed

lemma init_regs_ok:
  assumes "hdr_ok h" "j < 4"
  shows "chan_ok h (fold (apply_op h) (init_ops h) regs) (of_nat j)"
  unfolding init_ops_apply
  using assms(2) by (intro fold_chan_cfg_ok [OF assms(1)]) simp_all

lemma regfile_platform_sel:
  "plat_calloc (regfile_platform h st) p = (True, p)"
  "plat_free (regfile_platform h st) p = p"
  "plat_spi_init (regfile_platform h st) prm p = (0, Some 0, p)"
  "plat_spi_transfer (regfile_platform h st) = regfile_transfer h st"
  "plat_spi_remove (regfile_platform h st) c p = (0, p)"
  "plat_gpio_get_optional (regfile_platform h st) prm p = (0, prm, p)"
  "plat_gpio_set_value (regfile_platform h st) g v p = (0, p)"
  "plat_gpio_remove (regfile_platform h st) g p = (0, p)"
  by (simp_all add: regfile_platform_def)

lemma regfile_init:
  assumes ok: "hdr_ok h"
  shows "\<exists>d w'. max14906_init (regfile_platform h st) h out param w = (0, Some d, w')
           \<and> length (buff d) = 3 \<and> chip_address d = 0
           \<and> (\<forall>j<4. chan_ok h (plat w') (of_nat j))"
proof -
  let ?P = "regfile_platform h st"
  let ?d = "calloc_desc\<lparr>comm_desc := Some 0, crc_en := max14906_init_param.crc_en param,
              enable := enable_param param\<rparr>"
  let ?w = "\<lparr>plat = plat w, trace = trace w @ [Calloc, SpiInit (comm_param param),
              GpioGetOptional (enable_param param),
              GpioSetValue (enable_param param) NO_OS_GPIO_HIGH]\<rparr>"
  have len: "length (buff ?d) = 3" and chip: "chip_address ?d = 0"
    by (simp_all add: calloc_desc_def)
  from regfile_run_ops [OF len chip init_ops_ok [OF ok], of st ?w] obtain d' es where
    run: "run_ops ?P h (init_ops h) ?d ?w
            = (0, d', \<lparr>plat = fold (apply_op h) (init_ops h) (plat ?w), trace = trace ?w @ es\<rparr>)"
    and sd: "same_dev ?d d'" by blast
  have "max14906_init ?P h out param w
          = (0, Some d', \<lparr>plat = fold (apply_op h) (init_ops h) (plat ?w),
                           trace = trace ?w @ es\<rparr>)"
    by (simp add: max14906_init_def no_os_calloc_def no_os_spi_init_def
        no_os_gpio_get_optional_def no_os_gpio_set_value_def regfile_platform_sel
        init_finish_def init_configure_run_ops run)
  moreover from sd len chip have "length (buff d') = 3" "chip_address d' = 0"
    by (simp_all add: same_dev_fields)
  moreover have "\<forall>j<4. chan_ok h (fold (apply_op h) (init_ops h) (plat ?w)) (of_nat j)"
    by (simp add: init_regs_ok [OF ok])
  ultimately show ?thesis by simp
qed

lemma regfile_reads_back:
  assumes ok: "hdr_ok h" and len: "length (buff d) = 3" and chip: "chip_address d = 0"
    and ch: "chan_ok h (plat w) ch"
  shows "reads_back_high_z (regfile_platform h st) h d ch w"
    and "reads_back_climit (regfile_platform h st) h d ch w (MAX14906_CL_130 h)"
proof -
  let ?P = "regfile_platform h st"
  from hdr_ok_regs [OF ok] chip have
    r1: "reads_ok h (chip_address d) (MAX14906_CONFIG_DO_REG h)"
    and r3: "reads_ok h (chip_address d) (MAX14906_CONFIG_CURR_LIM h)"
    by simp_all
  from regfile_read [OF len r1, of st 0 w] obtain d1 where
    rd1: "max14906_reg_read ?P h d (MAX14906_CONFIG_DO_REG h) 0 w
           = (0, ucast (plat w (reg_ix h (chip_address d) (MAX14906_CONFIG_DO_REG h))), d1,
              \<lparr>plat = plat w, trace = trace w @ [SpiTransfer (comm_desc d)
                  (read_msg h (chip_address d) (crc_en d) (MAX14906_CONFIG_DO_REG h))]\<rparr>)"
    and sd1: "same_dev d d1" by blast
  from sd1 len chip have len1: "length (buff d1) = 3" and chip1: "chip_address d1 = 0"
    by (simp_all add: same_dev_fields)
  from hdr_ok_regs [OF ok] chip1 have
    r2: "reads_ok h (chip_address d1) (MAX14906_SETOUT_REG h)" by simp
  let ?w1 = "\<lparr>plat = plat w, trace = trace w @ [SpiTransfer (comm_desc d)
                  (read_msg h (chip_address d) (crc_en d) (MAX14906_CONFIG_DO_REG h))]\<rparr>"
  from regfile_read [OF len1 r2, of st 0 ?w1] obtain d2 w2 where
    rd2: "max14906_reg_read ?P h d1 (MAX14906_SETOUT_REG h) 0 ?w1
           = (0, ucast (plat w (reg_ix h (chip_address d1) (MAX14906_SETOUT_REG h))), d2, w2)"
    by auto
  from ch show "reads_back_high_z ?P h d ch w"
    by (simp add: reads_back_high_z_def rd1 rd2) (simp add: chip chip1 chan_ok_def)
  from regfile_read [OF len r3, of st 0 w] obtain d3 w3 where
    rd3: "max14906_reg_read ?P h d (MAX14906_CONFIG_CURR_LIM h) 0 w
           = (0, ucast (plat w (reg_ix h (chip_address d) (MAX14906_CONFIG_CURR_LIM h))), d3, w3)"
    by blast
  from ch show "reads_back_climit ?P h d ch w (MAX14906_CL_130 h)"
    by (simp add: reads_back_climit_def max14906_climit_get_def rd3)
       (simp add: chip chan_ok_def)
qed

section \<open>Supporting facts\<close>

lemma example_desc_simps:
  "length (buff (example_desc crc)) = 3" "chip_address (example_desc crc) = 0"
  "crc_en (example_desc crc) = crc" "comm_desc (example_desc crc) = Some 0"
  by (simp_all add: example_desc_def calloc_desc_def)

lemma crc_decode_5bit: "max14906_crc_decode (a # b # xs) < 32"
proof -
  have "max14906_crc_decode (a # b # xs) = max14906_crc_decode [a, b]"
    by (simp add: max14906_crc_decode_def)
  then show ?thesis by (simp add: decode_div crc5_div_5bit)
qed

lemma reg_read_platform:
  "plat_spi_transfer P = plat_spi_transfer Q
     \<Longrightarrow> max14906_reg_read P h d addr val w = max14906_reg_read Q h d addr val w"
  by (simp add: max14906_reg_read_def no_os_spi_transfer_def)

lemma reg_write_platform:
  "plat_spi_transfer P = plat_spi_transfer Q
     \<Longrightarrow> max14906_reg_write P h d addr val w = max14906_reg_write Q h d addr val w"
  by (simp add: max14906_reg_write_def no_os_spi_transfer_def)

lemma run_op_platform:
  "plat_spi_transfer P = plat_spi_transfer Q \<Longrightarrow> run_op P h op d w = run_op Q h op d w"
  by (simp add: run_op_def max14906_reg_update_def reg_read_platform [of P Q]
      reg_write_platform [of P Q] split: reg_op.splits cong: if_cong)

lemma run_ops_platform:
  "plat_spi_transfer P = plat_spi_transfer Q \<Longrightarrow> run_ops P h ops d w = run_ops Q h ops d w"
  by (induction ops arbitrary: d w) (simp_all add: run_op_platform [of P Q] cong: if_cong)

lemma op_events_xfers: "list_all is_xfer (op_events h d op v)"
  by (simp add: op_events_def is_xfer_def split: reg_op.splits)

lemma prefix_list_all: "prefix xs ys \<Longrightarrow> list_all Q ys \<Longrightarrow> list_all Q xs"
  by (auto simp add: prefix_def)

lemma run_op_xfers:
  assumes "length (buff d) = 3" "run_op P h op d w = (ret, d', w')"
  shows "\<exists>es. trace w' = trace w @ es \<and> list_all is_xfer es"
proof -
  from run_op_trace_grows [OF assms] obtain es where es: "trace w' = trace w @ es" by blast
  then have "events_since w w' = es" by (rule events_since_app)
  with run_op_result [OF assms] obtain v where "prefix es (op_events h d op v)" by blast
  then have "list_all is_xfer es" by (rule prefix_list_all) (rule op_events_xfers)
  with es show ?thesis by blast
qed

lemma run_ops_xfers:
  assumes "length (buff d) = 3" "run_ops P h ops d w = (ret, d', w')"
  shows "same_dev d d' \<and> (\<exists>es. trace w' = trace w @ es \<and> list_all is_xfer es)"
  using assms
proof (induction ops arbitrary: d w)
  case Nil
  then show ?case by simp
next
  case (Cons op ops)
  obtain r1 d1 w1 where one: "run_op P h op d w = (r1, d1, w1)"
    by (metis prod_cases3)
  from run_op_xfers [OF Cons.prems(1) one] obtain es where
    es: "trace w1 = trace w @ es" "list_all is_xfer es" by blast
  from run_op_result [OF Cons.prems(1) one] have sd1: "same_dev d d1" by simp
  then have len1: "length (buff d1) = 3" using Cons.prems(1) by (simp add: same_dev_fields)
  show ?case
  proof (cases "r1 = 0")
    case False
    with Cons.prems(2) one have "d' = d1" "w' = w1" by simp_all
    with sd1 es show ?thesis by blast
  next
    case True
    with Cons.prems(2) one have rest: "run_ops P h ops d1 w1 = (ret, d', w')" by simp
    from Cons.IH [OF len1 rest] obtain fs where
      sd2: "same_dev d1 d'" and fs: "trace w' = trace w1 @ fs" "list_all is_xfer fs" by blast
    from sd1 sd2 have "same_dev d d'" by (rule same_dev_trans)
    moreover from es fs have "trace w' = trace w @ (es @ fs)" "list_all is_xfer (es @ fs)"
      by simp_all
    ultimately show ?thesis by blast
  qed
qed

lemma xfer_not_set_value: "list_all is_xfer es \<Longrightarrow> GpioSetValue g v \<notin> set es"
  by (auto simp add: list_all_iff is_xfer_def)

lemma reg_update_starts_with_read:
  assumes len: "length (buff desc) = 3"
  shows "\<exists>es. events_since w (snd (snd (max14906_reg_update P h desc addr msk val w)))
           = SpiTransfer (comm_desc desc) (read_msg h (chip_address desc) (crc_en desc) addr)
             # es"
proof -
  obtain r1 v d1 w1 where rd: "max14906_reg_read P h desc addr 0 w = (r1, v, d1, w1)"
    by (metis prod_cases4)
  note R = reg_read_result [OF len rd]
  show ?thesis
  proof (cases "r1 = 0")
    case False
    with R show ?thesis
      by (simp add: max14906_reg_update_def rd events_since_app)
  next
    case True
    obtain r2 d2 w2 where
      wr: "max14906_reg_write P h d1 addr ((v AND NOT msk) OR (msk AND val)) w1 = (r2, d2, w2)"
      by (metis prod_cases3)
    from R have "same_dev desc d1" by simp
    then have "length (buff d1) = 3" using len by (simp add: same_dev_fields)
    from reg_write_result [OF this wr] R True show ?thesis
      by (simp add: max14906_reg_update_def rd Let_def wr events_since_app)
  qed
qed

lemma ch_func_high_z_events:
  assumes len: "length (buff desc) = 3"
    and ok: "fst (max14906_ch_func P h desc ch (MAX14906_HIGH_Z h) w) = 0"
  shows "\<exists>v1 v2. events_since w (snd (snd (max14906_ch_func P h desc ch (MAX14906_HIGH_Z h) w)))
     = [SpiTransfer (comm_desc desc)
          (read_msg h (chip_address desc) (crc_en desc) (MAX14906_CONFIG_DO_REG h)),
        SpiTransfer (comm_desc desc)
          (write_msg h (chip_address desc) (crc_en desc) (MAX14906_CONFIG_DO_REG h)
             ((v1 AND NOT (MAX14906_DO_MASK h ch))
              OR (MAX14906_DO_MASK h ch
                  AND no_os_field_prep (MAX14906_DO_MASK h ch) (MAX14906_PUSH_PULL h)))),
        SpiTransfer (comm_desc desc)
          (read_msg h (chip_address desc) (crc_en desc) (MAX14906_SETOUT_REG h)),
        SpiTransfer (comm_desc desc)
          (write_msg h (chip_address desc) (crc_en desc) (MAX14906_SETOUT_REG h)
             ((v2 AND NOT (MAX14906_CH_DIR_MASK h ch))
              OR (MAX14906_CH_DIR_MASK h ch
                  AND no_os_field_prep (MAX14906_CH_DIR_MASK h ch) 1)))]"
proof -
  obtain d' w' where run: "max14906_ch_func P h desc ch (MAX14906_HIGH_Z h) w = (0, d', w')"
    using ok by (metis fst_conv prod_cases3)
  then have "run_ops P h (func_ops h ch (MAX14906_HIGH_Z h)) desc w = (0, d', w')"
    by (simp add: ch_func_run_ops)
  from run_ops_result [OF len this] obtain vs where
    vs: "length vs = length (func_ops h ch (MAX14906_HIGH_Z h))"
    and ev: "events_since w w'
               = concat (map2 (op_events h desc) (func_ops h ch (MAX14906_HIGH_Z h)) vs)"
    by blast
  from vs obtain v1 v2 where "vs = [v1, v2]"
    by (auto simp add: func_ops_def length_Suc_conv)
  with ev show ?thesis
    by (auto simp add: run func_ops_def op_events_def)
qed

lemma init_finish_result:
  assumes len: "length (buff d) = 3"
    and run: "init_finish P h desc d w = (ret, desc', w')"
  shows "(ret \<noteq> 0 \<longrightarrow> desc' = desc
            \<and> (\<exists>es. trace w' = trace w @ es @ [GpioRemove (enable d), SpiRemove (comm_desc d), Free]
                     \<and> list_all is_xfer es))
       \<and> (ret = 0 \<longrightarrow> (\<exists>d' es. desc' = Some d' \<and> same_dev d d'
                     \<and> trace w' = trace w @ es \<and> list_all is_xfer es))"
proof -
  obtain r5 d5 w5 where cfg: "init_configure P h d w = (r5, d5, w5)"
    by (metis prod_cases3)
  then have "run_ops P h (init_ops h) d w = (r5, d5, w5)"
    by (simp add: init_configure_run_ops)
  from run_ops_xfers [OF len this] obtain es where
    sd: "same_dev d d5" and es: "trace w5 = trace w @ es" "list_all is_xfer es" by blast
  from sd have f: "enable d5 = enable d" "comm_desc d5 = comm_desc d"
    by (simp_all add: same_dev_fields)
  show ?thesis
  proof (cases "r5 = 0")
    case True
    with run cfg sd es show ?thesis by (auto simp add: init_finish_def)
  next
    case False
    with run cfg have "ret = r5" "desc' = desc"
      "trace w' = trace w5 @ [GpioRemove (enable d5), SpiRemove (comm_desc d5), Free]"
      by (auto simp add: init_finish_def init_gpio_err_def init_err_def no_os_gpio_remove_def
          no_os_spi_remove_def no_os_free_def split: prod.splits)
    with False es f show ?thesis by auto
  qed
qed

lemma init_desc_simps:
  "length (buff (init_desc param c g)) = 3"
  "chip_address (init_desc param c g) = 0"
  "enable (init_desc param c g) = g"
  "comm_desc (init_desc param c g) = c"
  "crc_en (init_desc param c g) = max14906_init_param.crc_en param"
  by (simp_all add: init_desc_def calloc_desc_def)

lemma init_unwind_events:
  "events_since v (init_unwind P g c v) = [GpioRemove g, SpiRemove c, Free]"
  "trace (init_unwind P g c v) = trace v @ [GpioRemove g, SpiRemove c, Free]"
  by (simp_all add: init_unwind_def events_since_def no_os_free_def no_os_spi_remove_def
      no_os_gpio_remove_def split: prod.splits)

lemma init_finish_steps:
  assumes len: "length (buff d) = 3"
    and run: "run_ops P h (init_ops h) d w = (r5, d5, w5)"
  shows "init_finish P h desc d w
      = (if r5 \<noteq> 0 then (r5, desc, init_unwind P (enable d) (comm_desc d) w5)
         else (0, Some d5, w5))"
proof -
  from run_ops_xfers [OF len run] have sd: "same_dev d d5" by blast
  then have f: "enable d5 = enable d" "comm_desc d5 = comm_desc d"
    by (simp_all add: same_dev_fields)
  show ?thesis
    by (simp add: init_finish_def init_configure_run_ops run init_gpio_err_def init_err_def
        init_unwind_def f split: prod.splits)
qed

lemma init_steps:
  assumes a: "no_os_calloc P w = (ok, w1)"
    and b: "no_os_spi_init P (comm_param param) w1 = (r2, c, w2)"
    and cc: "no_os_gpio_get_optional P (enable_param param) w2 = (r3, g, w3)"
    and s: "no_os_gpio_set_value P g NO_OS_GPIO_HIGH w3 = (r4, w4)"
    and run: "run_ops P h (init_ops h) (init_desc param c g) (if r3 = 0 then w4 else w3)
                = (r5, d5, w5)"
  shows "max14906_init P h desc param w
      = (if \<not> ok then (- ENOMEM, desc, w1)
         else if r2 \<noteq> 0 then (r2, desc, no_os_free P w2)
         else if r3 = 0 \<and> r4 \<noteq> 0 then (r4, desc, init_unwind P g c w4)
         else if r5 \<noteq> 0 then (r5, desc, init_unwind P g c w5)
         else (0, Some d5, w5))"
proof -
  let ?d = "init_desc param c g"
  have len: "length (buff ?d) = 3" by (simp add: init_desc_simps)
  note fin = init_finish_steps [OF len run, of desc, unfolded init_desc_simps]
  show ?thesis
  proof (cases "r3 = 0")
    case True
    with fin show ?thesis
      by (simp add: max14906_init_def a b cc s Let_def init_gpio_err_def init_err_def
          init_unwind_def init_desc_def split: prod.splits)
  next
    case False
    with fin show ?thesis
      by (simp add: max14906_init_def a b cc Let_def init_err_def init_desc_def)
  qed
qed

lemma channel_ops_calls:
  "run_ops P h (func_ops h ch (MAX14906_HIGH_Z h) @ [climit_op h ch (MAX14906_CL_130 h)]) d v
     = (case max14906_ch_func P h d ch (MAX14906_HIGH_Z h) v of
          (ret, d', v') \<Rightarrow>
            if ret \<noteq> 0 then (ret, d', v')
            else max14906_climit_set P h d' ch (MAX14906_CL_130 h) v')"
  by (simp only: run_ops_append ch_func_run_ops climit_set_run_ops)

lemma ch_get_ch_set_bounds:
  assumes "4 \<le> ch"
  shows "max14906_ch_get P h desc ch val w = (- EINVAL, val, desc, w)"
    and "max14906_ch_set P h desc ch v w = (- EINVAL, desc, w)"
  using assms by (simp_all add: max14906_ch_get_def max14906_ch_set_def MAX14906_CHANNELS_def)

section \<open>Initialisation\<close>

text \<open>
  C7. Let calloc succeed, the transport be acquired and the enable line be handled
  without a failure (either \<^verbatim>\<open>no_os_gpio_get_optional\<close> returns an error, which
  is ignored, or it returns 0 and \<^verbatim>\<open>no_os_gpio_set_value\<close> returns 0). Then, on
  any platform, what \<^verbatim>\<open>max14906_init\<close> does next is the list \<open>init_ops\<close> in
  order, on the descriptor built so far and from the world the enable line left: the four
  fault registers OVR_LD, OPN_WIR_FLT, SHD_VDD_FLT and GLOBAL_FLT are read (a read is one
  transfer, nothing is written back), then for the channels 0 to 3 in turn come the two
  updates of \<^verbatim>\<open>max14906_ch_func\<close> for high impedance and the update of the current limit
  to \<^verbatim>\<open>MAX14906_CL_130\<close>. When all of them return 0, \<^verbatim>\<open>max14906_init\<close> returns 0,
  the descriptor they leave and their world, and the events since the enable line are
  exactly their transfers; when one fails, \<^verbatim>\<open>max14906_init\<close> returns its code, leaves
  the caller's pointer alone and releases what it holds. The operations of one channel are
  the call of \<^verbatim>\<open>max14906_ch_func\<close> with \<^verbatim>\<open>MAX14906_HIGH_Z\<close> followed, when it
  returns 0, by the call of \<^verbatim>\<open>max14906_climit_set\<close> with \<^verbatim>\<open>MAX14906_CL_130\<close>.
  On the register file, with a header fit for it, \<^verbatim>\<open>max14906_init\<close> returns 0 and a
  descriptor, and each of the 4 channels then reads back as high impedance with the
  current limit \<^verbatim>\<open>MAX14906_CL_130\<close>.
\<close>

theorem init_high_z_min_climit:
  assumes "hdr_ok h"
  shows "(case no_os_calloc P w of (ok, w1) \<Rightarrow>
          case no_os_spi_init P (comm_param param) w1 of (r2, c, w2) \<Rightarrow>
          case no_os_gpio_get_optional P (enable_param param) w2 of (r3, g, w3) \<Rightarrow>
          case no_os_gpio_set_value P g NO_OS_GPIO_HIGH w3 of (r4, w4) \<Rightarrow>
          case run_ops P h (init_ops h) (init_desc param c g) (if r3 = 0 then w4 else w3) of
            (r5, d5, w5) \<Rightarrow>
              ok \<and> r2 = 0 \<and> (r3 = 0 \<longrightarrow> r4 = 0) \<longrightarrow>
                max14906_init P h desc param w
                  = (if r5 \<noteq> 0 then (r5, desc, init_unwind P g c w5) else (0, Some d5, w5))
                \<and> (r5 = 0 \<longrightarrow>
                     (\<exists>vs. length vs = length (init_ops h)
                        \<and> events_since (if r3 = 0 then w4 else w3) w5
                            = concat (map2 (op_events h (init_desc param c g)) (init_ops h) vs))))
     \<and> run_ops P h (func_ops h ch (MAX14906_HIGH_Z h) @ [climit_op h ch (MAX14906_CL_130 h)]) d v
         = (case max14906_ch_func P h d ch (MAX14906_HIGH_Z h) v of
              (ret, d', v') \<Rightarrow>
                if ret \<noteq> 0 then (ret, d', v')
                else max14906_climit_set P h d' ch (MAX14906_CL_130 h) v')
     \<and> (case max14906_init (regfile_platform h st) h out param rw of
          (ret, out', rw') \<Rightarrow>
            ret = 0
            \<and> (case out' of
                 None \<Rightarrow> False
               | Some d \<Rightarrow>
                   list_all (\<lambda>i. reads_back_high_z (regfile_platform h st) h d (of_nat i) rw'
                        \<and> reads_back_climit (regfile_platform h st) h d (of_nat i) rw'
                             (MAX14906_CL_130 h))
                     [0..<MAX14906_CHANNELS]))"
proof -
  obtain ok w1 where a: "no_os_calloc P w = (ok, w1)" by (metis prod.exhaust)
  obtain r2 c w2 where b: "no_os_spi_init P (comm_param param) w1 = (r2, c, w2)"
    by (metis prod_cases3)
  obtain r3 g w3 where cc: "no_os_gpio_get_optional P (enable_param param) w2 = (r3, g, w3)"
    by (metis prod_cases3)
  obtain r4 w4 where s: "no_os_gpio_set_value P g NO_OS_GPIO_HIGH w3 = (r4, w4)"
    by (metis prod.exhaust)
  obtain r5 d5 w5 where
    run: "run_ops P h (init_ops h) (init_desc param c g) (if r3 = 0 then w4 else w3)
            = (r5, d5, w5)"
    by (metis prod_cases3)
  have len: "length (buff (init_desc param c g)) = 3" by (simp add: init_desc_simps)
  have A: "max14906_init P h desc param w
             = (if r5 \<noteq> 0 then (r5, desc, init_unwind P g c w5) else (0, Some d5, w5))"
    if "ok" "r2 = 0" "r3 = 0 \<longrightarrow> r4 = 0"
    using init_steps [OF a b cc s run, of desc] that by auto
  have E: "r5 = 0 \<longrightarrow>
             (\<exists>vs. length vs = length (init_ops h)
                \<and> events_since (if r3 = 0 then w4 else w3) w5
                    = concat (map2 (op_events h (init_desc param c g)) (init_ops h) vs))"
    using run_ops_result [OF len run] by blast
  have first: "case no_os_calloc P w of (ok, w1) \<Rightarrow>
          case no_os_spi_init P (comm_param param) w1 of (r2, c, w2) \<Rightarrow>
          case no_os_gpio_get_optional P (enable_param param) w2 of (r3, g, w3) \<Rightarrow>
          case no_os_gpio_set_value P g NO_OS_GPIO_HIGH w3 of (r4, w4) \<Rightarrow>
          case run_ops P h (init_ops h) (init_desc param c g) (if r3 = 0 then w4 else w3) of
            (r5, d5, w5) \<Rightarrow>
              ok \<and> r2 = 0 \<and> (r3 = 0 \<longrightarrow> r4 = 0) \<longrightarrow>
                max14906_init P h desc param w
                  = (if r5 \<noteq> 0 then (r5, desc, init_unwind P g c w5) else (0, Some d5, w5))
                \<and> (r5 = 0 \<longrightarrow>
                     (\<exists>vs. length vs = length (init_ops h)
                        \<and> events_since (if r3 = 0 then w4 else w3) w5
                            = concat (map2 (op_events h (init_desc param c g)) (init_ops h) vs)))"
    unfolding a b cc s run prod.case using A E by blast
  from regfile_init [OF assms, of st out param rw] obtain d' rw' where
    init: "max14906_init (regfile_platform h st) h out param rw = (0, Some d', rw')"
    and d: "length (buff d') = 3" "chip_address d' = 0"
    and regs: "\<forall>j<4. chan_ok h (plat rw') (of_nat j)" by blast
  have "reads_back_high_z (regfile_platform h st) h d' (of_nat i) rw'
        \<and> reads_back_climit (regfile_platform h st) h d' (of_nat i) rw' (MAX14906_CL_130 h)"
    if "i < 4" for i
    using regfile_reads_back [OF assms d, of rw' "of_nat i" st] regs that by simp
  then have third: "case max14906_init (regfile_platform h st) h out param rw of
          (ret, out', rw') \<Rightarrow>
            ret = 0
            \<and> (case out' of
                 None \<Rightarrow> False
               | Some d \<Rightarrow>
                   list_all (\<lambda>i. reads_back_high_z (regfile_platform h st) h d (of_nat i) rw'
                        \<and> reads_back_climit (regfile_platform h st) h d (of_nat i) rw'
                             (MAX14906_CL_130 h))
                     [0..<MAX14906_CHANNELS])"
    by (simp add: init list_all_iff MAX14906_CHANNELS_def)
  from first channel_ops_calls third show ?thesis by (intro conjI)
qed

text \<open>
  C7 at the example header, with CRC enabled and an enable line: the enable line is
  driven, \<^verbatim>\<open>max14906_init\<close> returns 0, its events are the four set-up calls and then
  the transfers of \<open>init_ops\<close>, and the channels read back as configured.
\<close>

theorem init_high_z_min_climit_witness:
  "hdr_ok example_hdr
   \<and> fst (no_os_calloc (regfile_platform example_hdr 0) example_world)
   \<and> fst (no_os_gpio_set_value (regfile_platform example_hdr 0) (Some 2) NO_OS_GPIO_HIGH
            \<lparr>plat = plat example_world,
               trace = [Calloc, SpiInit (Some 3), GpioGetOptional (Some 2)]\<rparr>) = 0
   \<and> fst (max14906_init (regfile_platform example_hdr 0) example_hdr None
            \<lparr>comm_param = Some 3, enable_param = Some 2, crc_en = True\<rparr> example_world) = 0
   \<and> (\<exists>vs. length vs = length (init_ops example_hdr)
         \<and> events_since example_world
             (snd (snd (max14906_init (regfile_platform example_hdr 0) example_hdr None
                \<lparr>comm_param = Some 3, enable_param = Some 2, crc_en = True\<rparr> example_world)))
             = [Calloc, SpiInit (Some 3), GpioGetOptional (Some 2),
                GpioSetValue (Some 2) NO_OS_GPIO_HIGH]
               @ concat (map2 (op_events example_hdr
                    (init_desc \<lparr>comm_param = Some 3, enable_param = Some 2, crc_en = True\<rparr>
                       (Some 0) (Some 2)))
                  (init_ops example_hdr) vs))
   \<and> (case max14906_init (regfile_platform example_hdr 0) example_hdr None
             \<lparr>comm_param = Some 3, enable_param = Some 2, crc_en = True\<rparr> example_world of
          (ret, out', rw') \<Rightarrow>
            ret = 0
            \<and> (case out' of
                 None \<Rightarrow> False
               | Some d \<Rightarrow>
                   list_all (\<lambda>i. reads_back_high_z (regfile_platform example_hdr 0) example_hdr d
                                  (of_nat i) rw'
                        \<and> reads_back_climit (regfile_platform example_hdr 0) example_hdr d
                             (of_nat i) rw' (MAX14906_CL_130 example_hdr))
                     [0..<MAX14906_CHANNELS]))"
proof -
  let ?P = "regfile_platform example_hdr 0"
  let ?prm = "\<lparr>comm_param = Some 3, enable_param = Some 2, crc_en = True\<rparr>"
  let ?w1 = "\<lparr>plat = plat example_world, trace = [Calloc]\<rparr>"
  let ?w2 = "\<lparr>plat = plat example_world, trace = [Calloc, SpiInit (Some 3)]\<rparr>"
  let ?w3 = "\<lparr>plat = plat example_world,
              trace = [Calloc, SpiInit (Some 3), GpioGetOptional (Some 2)]\<rparr>"
  let ?w4 = "\<lparr>plat = plat example_world,
              trace = [Calloc, SpiInit (Some 3), GpioGetOptional (Some 2),
                       GpioSetValue (Some 2) NO_OS_GPIO_HIGH]\<rparr>"
  let ?d = "init_desc ?prm (Some 0) (Some 2)"
  note ok = hdr_ok_example
  have a: "no_os_calloc ?P example_world = (True, ?w1)"
    by (simp add: no_os_calloc_def regfile_platform_sel example_world_def)
  have b: "no_os_spi_init ?P (Some 3) ?w1 = (0, Some 0, ?w2)"
    by (simp add: no_os_spi_init_def regfile_platform_sel)
  have cc: "no_os_gpio_get_optional ?P (Some 2) ?w2 = (0, Some 2, ?w3)"
    by (simp add: no_os_gpio_get_optional_def regfile_platform_sel)
  have s: "no_os_gpio_set_value ?P (Some 2) NO_OS_GPIO_HIGH ?w3 = (0, ?w4)"
    by (simp add: no_os_gpio_set_value_def regfile_platform_sel)
  have len: "length (buff ?d) = 3" and chip: "chip_address ?d = 0"
    by (simp_all add: init_desc_simps)
  from regfile_run_ops [OF len chip init_ops_ok [OF ok], where st = 0 and w = ?w4]
  obtain d' w' where run: "run_ops ?P example_hdr (init_ops example_hdr) ?d ?w4 = (0, d', w')"
    by blast
  have i0: "(if (0::int) = 0 then ?w4 else ?w3) = ?w4" by simp
  note t = init_high_z_min_climit [OF ok, where P = ?P and desc = None and w = example_world
      and st = 0 and out = None and param = ?prm and rw = example_world]
  from t have first: "max14906_init ?P example_hdr None ?prm example_world = (0, Some d', w')
      \<and> (\<exists>vs. length vs = length (init_ops example_hdr)
            \<and> events_since ?w4 w'
                = concat (map2 (op_events example_hdr ?d) (init_ops example_hdr) vs))"
    unfolding max14906_init_param.select_convs a b cc s prod.case i0 run by simp
  then obtain vs where vs: "length vs = length (init_ops example_hdr)"
    "events_since ?w4 w' = concat (map2 (op_events example_hdr ?d) (init_ops example_hdr) vs)"
    by blast
  from run_ops_result [OF len run] obtain es where es: "trace w' = trace ?w4 @ es" by blast
  with vs(2) have "events_since example_world w'
      = [Calloc, SpiInit (Some 3), GpioGetOptional (Some 2), GpioSetValue (Some 2) NO_OS_GPIO_HIGH]
        @ concat (map2 (op_events example_hdr ?d) (init_ops example_hdr) vs)"
    by (simp add: events_since_def example_world_def)
  with vs(1) first have ev: "\<exists>vs. length vs = length (init_ops example_hdr)
         \<and> events_since example_world
             (snd (snd (max14906_init ?P example_hdr None ?prm example_world)))
             = [Calloc, SpiInit (Some 3), GpioGetOptional (Some 2),
                GpioSetValue (Some 2) NO_OS_GPIO_HIGH]
               @ concat (map2 (op_events example_hdr ?d) (init_ops example_hdr) vs)"
    by auto
  from first have r: "fst (max14906_init ?P example_hdr None ?prm example_world) = 0" by simp
  have c1: "fst (no_os_calloc ?P example_world)" by (simp add: a)
  have c2: "fst (no_os_gpio_set_value ?P (Some 2) NO_OS_GPIO_HIGH ?w3) = 0" by (simp add: s)
  from t have third: "case max14906_init ?P example_hdr None ?prm example_world of
          (ret, out', rw') \<Rightarrow>
            ret = 0
            \<and> (case out' of
                 None \<Rightarrow> False
               | Some d \<Rightarrow>
                   list_all (\<lambda>i. reads_back_high_z ?P example_hdr d (of_nat i) rw'
                        \<and> reads_back_climit ?P example_hdr d
                             (of_nat i) rw' (MAX14906_CL_130 example_hdr))
                     [0..<MAX14906_CHANNELS])"
    by (rule conjunct2 [OF conjunct2])
  from ok c1 c2 r ev third show ?thesis by (intro conjI)
qed

text \<open>
  C8, as the source has it. Let calloc succeed and the SPI transport be acquired
  (\<^verbatim>\<open>no_os_spi_init\<close> returns 0). If the enable line is acquired and
  \<^verbatim>\<open>no_os_gpio_set_value\<close> fails, \<^verbatim>\<open>max14906_init\<close> returns the code of that
  call; if the enable line is handled without a failure and one of the operations of
  \<open>init_ops\<close> (a read of a fault register, an update of a channel) fails,
  \<^verbatim>\<open>max14906_init\<close> returns the code of that operation. In both cases the object
  the caller's \<^verbatim>\<open>desc\<close> points at is what it was, and the world is the one the failed
  step left, released: \<^verbatim>\<open>no_os_gpio_remove\<close> on the enable handle,
  \<^verbatim>\<open>no_os_spi_remove\<close> on the transport handle and \<^verbatim>\<open>no_os_free\<close>, in this
  order, are the last three calls into the platform. Conversely, whenever
  \<^verbatim>\<open>max14906_init\<close> returns an error the caller's \<^verbatim>\<open>desc\<close> is untouched, and
  whenever it does so after the transport was acquired the trace ends with these three
  calls. A failure of \<^verbatim>\<open>no_os_gpio_get_optional\<close> is not among the steps that lead
  here.
\<close>

theorem init_failure_unwinds:
  "case no_os_calloc P w of (ok, w1) \<Rightarrow>
   case no_os_spi_init P (comm_param param) w1 of (r2, c, w2) \<Rightarrow>
   case no_os_gpio_get_optional P (enable_param param) w2 of (r3, g, w3) \<Rightarrow>
   case no_os_gpio_set_value P g NO_OS_GPIO_HIGH w3 of (r4, w4) \<Rightarrow>
   case run_ops P h (init_ops h) (init_desc param c g) (if r3 = 0 then w4 else w3) of
     (r5, d5, w5) \<Rightarrow>
   case max14906_init P h desc param w of (ret, desc', w') \<Rightarrow>
     (ok \<and> r2 = 0 \<and> r3 = 0 \<and> r4 \<noteq> 0
        \<longrightarrow> ret = r4 \<and> desc' = desc \<and> w' = init_unwind P g c w4)
     \<and> (ok \<and> r2 = 0 \<and> (r3 = 0 \<longrightarrow> r4 = 0) \<and> r5 \<noteq> 0
        \<longrightarrow> ret = r5 \<and> desc' = desc \<and> w' = init_unwind P g c w5)
     \<and> (\<forall>v. events_since v (init_unwind P g c v) = [GpioRemove g, SpiRemove c, Free])
     \<and> (ret \<noteq> 0 \<longrightarrow> desc' = desc)
     \<and> (ok \<and> r2 = 0 \<and> ret \<noteq> 0
        \<longrightarrow> (\<exists>es. events_since w3 w' = es @ [GpioRemove g, SpiRemove c, Free]))"
proof -
  obtain ok w1 where a: "no_os_calloc P w = (ok, w1)" by (metis prod.exhaust)
  obtain r2 c w2 where b: "no_os_spi_init P (comm_param param) w1 = (r2, c, w2)"
    by (metis prod_cases3)
  obtain r3 g w3 where cc: "no_os_gpio_get_optional P (enable_param param) w2 = (r3, g, w3)"
    by (metis prod_cases3)
  obtain r4 w4 where s: "no_os_gpio_set_value P g NO_OS_GPIO_HIGH w3 = (r4, w4)"
    by (metis prod.exhaust)
  obtain r5 d5 w5 where
    run: "run_ops P h (init_ops h) (init_desc param c g) (if r3 = 0 then w4 else w3)
            = (r5, d5, w5)"
    by (metis prod_cases3)
  obtain ret desc' w' where i: "max14906_init P h desc param w = (ret, desc', w')"
    by (metis prod_cases3)
  note eq = init_steps [OF a b cc s run, of desc, unfolded i]
  have len: "length (buff (init_desc param c g)) = 3" by (simp add: init_desc_simps)
  from run_ops_xfers [OF len run] obtain es where
    es: "trace w5 = trace (if r3 = 0 then w4 else w3) @ es" by blast
  have t4: "trace w4 = trace w3 @ [GpioSetValue g NO_OS_GPIO_HIGH]"
    using s by (auto simp add: no_os_gpio_set_value_def split: prod.splits)
  have one: "ok \<and> r2 = 0 \<and> r3 = 0 \<and> r4 \<noteq> 0
        \<longrightarrow> ret = r4 \<and> desc' = desc \<and> w' = init_unwind P g c w4"
    using eq by auto
  have two: "ok \<and> r2 = 0 \<and> (r3 = 0 \<longrightarrow> r4 = 0) \<and> r5 \<noteq> 0
        \<longrightarrow> ret = r5 \<and> desc' = desc \<and> w' = init_unwind P g c w5"
    using eq by auto
  have three: "\<forall>v. events_since v (init_unwind P g c v) = [GpioRemove g, SpiRemove c, Free]"
    by (simp add: init_unwind_events)
  have four: "ret \<noteq> 0 \<longrightarrow> desc' = desc"
    using eq by (auto split: if_splits)
  have five: "ok \<and> r2 = 0 \<and> ret \<noteq> 0
        \<longrightarrow> (\<exists>es. events_since w3 w' = es @ [GpioRemove g, SpiRemove c, Free])"
  proof (intro impI)
    assume h: "ok \<and> r2 = 0 \<and> ret \<noteq> 0"
    with eq have "w' = init_unwind P g c w4 \<and> r3 = 0 \<or> w' = init_unwind P g c w5"
      by (auto split: if_splits)
    then show "\<exists>es. events_since w3 w' = es @ [GpioRemove g, SpiRemove c, Free]"
      using es t4 by (auto simp add: events_since_def init_unwind_events split: if_splits)
  qed
  from one two three four five show ?thesis
    unfolding a b cc s run i prod.case by (intro conjI)
qed

text \<open>
  C8 on two platforms. On the first \<^verbatim>\<open>no_os_gpio_set_value\<close> fails with -5; on the
  second the transport fails with -5, so the first read of a fault register fails. In both
  \<^verbatim>\<open>max14906_init\<close> returns -5, the caller's pointer stays null, and the trace ends
  with the three releases.
\<close>

theorem init_failure_unwinds_witness:
  "fst (no_os_calloc
          ((regfile_platform example_hdr 0)\<lparr>plat_gpio_set_value := \<lambda>g v p. (- 5, p)\<rparr>)
          example_world)
   \<and> fst (no_os_gpio_set_value
          ((regfile_platform example_hdr 0)\<lparr>plat_gpio_set_value := \<lambda>g v p. (- 5, p)\<rparr>)
          (Some 2) NO_OS_GPIO_HIGH
          \<lparr>plat = plat example_world,
             trace = [Calloc, SpiInit (Some 3), GpioGetOptional (Some 2)]\<rparr>) = - 5
   \<and> fst (max14906_init
          ((regfile_platform example_hdr 0)\<lparr>plat_gpio_set_value := \<lambda>g v p. (- 5, p)\<rparr>)
          example_hdr None \<lparr>comm_param = Some 3, enable_param = Some 2, crc_en = True\<rparr>
          example_world) = - 5
   \<and> fst (snd (max14906_init
          ((regfile_platform example_hdr 0)\<lparr>plat_gpio_set_value := \<lambda>g v p. (- 5, p)\<rparr>)
          example_hdr None \<lparr>comm_param = Some 3, enable_param = Some 2, crc_en = True\<rparr>
          example_world)) = None
   \<and> trace (snd (snd (max14906_init
          ((regfile_platform example_hdr 0)\<lparr>plat_gpio_set_value := \<lambda>g v p. (- 5, p)\<rparr>)
          example_hdr None \<lparr>comm_param = Some 3, enable_param = Some 2, crc_en = True\<rparr>
          example_world)))
       = [Calloc, SpiInit (Some 3), GpioGetOptional (Some 2), GpioSetValue (Some 2) NO_OS_GPIO_HIGH,
          GpioRemove (Some 2), SpiRemove (Some 0), Free]
   \<and> fst (run_ops
          ((regfile_platform example_hdr 0)\<lparr>plat_spi_transfer := \<lambda>c m p. (- 5, [], p)\<rparr>)
          example_hdr (init_ops example_hdr)
          (init_desc \<lparr>comm_param = Some 3, enable_param = Some 2, crc_en = True\<rparr>
             (Some 0) (Some 2))
          \<lparr>plat = plat example_world,
             trace = [Calloc, SpiInit (Some 3), GpioGetOptional (Some 2),
                      GpioSetValue (Some 2) NO_OS_GPIO_HIGH]\<rparr>) = - 5
   \<and> fst (max14906_init
          ((regfile_platform example_hdr 0)\<lparr>plat_spi_transfer := \<lambda>c m p. (- 5, [], p)\<rparr>)
          example_hdr None \<lparr>comm_param = Some 3, enable_param = Some 2, crc_en = True\<rparr>
          example_world) = - 5
   \<and> fst (snd (max14906_init
          ((regfile_platform example_hdr 0)\<lparr>plat_spi_transfer := \<lambda>c m p. (- 5, [], p)\<rparr>)
          example_hdr None \<lparr>comm_param = Some 3, enable_param = Some 2, crc_en = True\<rparr>
          example_world)) = None
   \<and> (\<exists>es. trace (snd (snd (max14906_init
          ((regfile_platform example_hdr 0)\<lparr>plat_spi_transfer := \<lambda>c m p. (- 5, [], p)\<rparr>)
          example_hdr None \<lparr>comm_param = Some 3, enable_param = Some 2, crc_en = True\<rparr>
          example_world)))
       = [Calloc, SpiInit (Some 3), GpioGetOptional (Some 2), GpioSetValue (Some 2) NO_OS_GPIO_HIGH]
         @ es @ [GpioRemove (Some 2), SpiRemove (Some 0), Free])"
proof -
  let ?Q = "(regfile_platform example_hdr 0)\<lparr>plat_gpio_set_value := \<lambda>g v p. (- 5, p)\<rparr>"
  let ?R = "(regfile_platform example_hdr 0)\<lparr>plat_spi_transfer := \<lambda>c m p. (- 5, [], p)\<rparr>"
  let ?prm = "\<lparr>comm_param = Some 3, enable_param = Some 2, crc_en = True\<rparr>"
  let ?w1 = "\<lparr>plat = plat example_world, trace = [Calloc]\<rparr>"
  let ?w2 = "\<lparr>plat = plat example_world, trace = [Calloc, SpiInit (Some 3)]\<rparr>"
  let ?w3 = "\<lparr>plat = plat example_world,
              trace = [Calloc, SpiInit (Some 3), GpioGetOptional (Some 2)]\<rparr>"
  let ?w4 = "\<lparr>plat = plat example_world,
              trace = [Calloc, SpiInit (Some 3), GpioGetOptional (Some 2),
                       GpioSetValue (Some 2) NO_OS_GPIO_HIGH]\<rparr>"
  let ?d = "init_desc ?prm (Some 0) (Some 2)"
  have i0: "(if (0::int) = 0 then ?w4 else ?w3) = ?w4" by simp
  have len: "length (buff ?d) = 3" by (simp add: init_desc_simps)
  have a: "no_os_calloc ?Q example_world = (True, ?w1)"
    by (simp add: no_os_calloc_def regfile_platform_sel example_world_def)
  have b: "no_os_spi_init ?Q (Some 3) ?w1 = (0, Some 0, ?w2)"
    by (simp add: no_os_spi_init_def regfile_platform_sel)
  have cc: "no_os_gpio_get_optional ?Q (Some 2) ?w2 = (0, Some 2, ?w3)"
    by (simp add: no_os_gpio_get_optional_def regfile_platform_sel)
  have s: "no_os_gpio_set_value ?Q (Some 2) NO_OS_GPIO_HIGH ?w3 = (- 5, ?w4)"
    by (simp add: no_os_gpio_set_value_def)
  obtain r5 d5 w5 where
    run: "run_ops ?Q example_hdr (init_ops example_hdr) ?d ?w4 = (r5, d5, w5)"
    by (metis prod_cases3)
  obtain ret desc' w' where
    i: "max14906_init ?Q example_hdr None ?prm example_world = (ret, desc', w')"
    by (metis prod_cases3)
  note t = init_failure_unwinds [where P = ?Q and h = example_hdr and desc = None
      and param = ?prm and w = example_world]
  from t have "ret = - 5 \<and> desc' = None \<and> w' = init_unwind ?Q (Some 2) (Some 0) ?w4"
    unfolding max14906_init_param.select_convs a b cc s prod.case i0 run i by simp
  then have q: "fst (max14906_init ?Q example_hdr None ?prm example_world) = - 5"
    "fst (snd (max14906_init ?Q example_hdr None ?prm example_world)) = None"
    "trace (snd (snd (max14906_init ?Q example_hdr None ?prm example_world)))
       = [Calloc, SpiInit (Some 3), GpioGetOptional (Some 2),
          GpioSetValue (Some 2) NO_OS_GPIO_HIGH, GpioRemove (Some 2), SpiRemove (Some 0), Free]"
    by (simp_all add: i init_unwind_events)
  have q1: "fst (no_os_calloc ?Q example_world)" by (simp add: a)
  have q2: "fst (no_os_gpio_set_value ?Q (Some 2) NO_OS_GPIO_HIGH ?w3) = - 5" by (simp add: s)
  have a': "no_os_calloc ?R example_world = (True, ?w1)"
    by (simp add: no_os_calloc_def regfile_platform_sel example_world_def)
  have b': "no_os_spi_init ?R (Some 3) ?w1 = (0, Some 0, ?w2)"
    by (simp add: no_os_spi_init_def regfile_platform_sel)
  have cc': "no_os_gpio_get_optional ?R (Some 2) ?w2 = (0, Some 2, ?w3)"
    by (simp add: no_os_gpio_get_optional_def regfile_platform_sel)
  have s': "no_os_gpio_set_value ?R (Some 2) NO_OS_GPIO_HIGH ?w3 = (0, ?w4)"
    by (simp add: no_os_gpio_set_value_def regfile_platform_sel)
  have f: "fst (run_ops ?R example_hdr (init_ops example_hdr) ?d ?w4) = - 5"
    by (simp add: init_ops_def run_op_def reg_read_eq [OF len] no_os_spi_transfer_def Let_def)
  then obtain d6 w6 where
    run': "run_ops ?R example_hdr (init_ops example_hdr) ?d ?w4 = (- 5, d6, w6)"
    by (metis fst_conv prod_cases3)
  from run_ops_xfers [OF len run'] obtain es where es: "trace w6 = trace ?w4 @ es" by blast
  obtain ret2 desc2 w2' where
    i': "max14906_init ?R example_hdr None ?prm example_world = (ret2, desc2, w2')"
    by (metis prod_cases3)
  note t' = init_failure_unwinds [where P = ?R and h = example_hdr and desc = None
      and param = ?prm and w = example_world]
  from t' have "ret2 = - 5 \<and> desc2 = None \<and> w2' = init_unwind ?R (Some 2) (Some 0) w6"
    unfolding max14906_init_param.select_convs a' b' cc' s' prod.case i0 run' i' by simp
  with es have r: "fst (max14906_init ?R example_hdr None ?prm example_world) = - 5"
    "fst (snd (max14906_init ?R example_hdr None ?prm example_world)) = None"
    "\<exists>es. trace (snd (snd (max14906_init ?R example_hdr None ?prm example_world)))
       = [Calloc, SpiInit (Some 3), GpioGetOptional (Some 2),
          GpioSetValue (Some 2) NO_OS_GPIO_HIGH] @ es
         @ [GpioRemove (Some 2), SpiRemove (Some 0), Free]"
    by (simp_all add: i' init_unwind_events)
  from q1 q2 q f r show ?thesis by (intro conjI)
qed

text \<open>
  C8, as the claim words it, fails for one step: when \<^verbatim>\<open>no_os_gpio_get_optional\<close>
  fails (here with -22 on the register file), \<^verbatim>\<open>max14906_init\<close> returns 0 and a
  descriptor, and neither removes the GPIO or the transport nor frees anything.
\<close>

theorem init_gpio_get_failure_counterexample:
  "fst (no_os_gpio_get_optional
          ((regfile_platform example_hdr 0)\<lparr>plat_gpio_get_optional := \<lambda>prm p. (- 22, None, p)\<rparr>)
          (Some 2)
          \<lparr>plat = plat example_world, trace = [Calloc, SpiInit (Some 3)]\<rparr>) = - 22
   \<and> fst (max14906_init
          ((regfile_platform example_hdr 0)\<lparr>plat_gpio_get_optional := \<lambda>prm p. (- 22, None, p)\<rparr>)
          example_hdr None \<lparr>comm_param = Some 3, enable_param = Some 2, crc_en = True\<rparr>
          example_world) = 0
   \<and> fst (snd (max14906_init
          ((regfile_platform example_hdr 0)\<lparr>plat_gpio_get_optional := \<lambda>prm p. (- 22, None, p)\<rparr>)
          example_hdr None \<lparr>comm_param = Some 3, enable_param = Some 2, crc_en = True\<rparr>
          example_world)) \<noteq> None
   \<and> Free \<notin> set (trace (snd (snd (max14906_init
          ((regfile_platform example_hdr 0)\<lparr>plat_gpio_get_optional := \<lambda>prm p. (- 22, None, p)\<rparr>)
          example_hdr None \<lparr>comm_param = Some 3, enable_param = Some 2, crc_en = True\<rparr>
          example_world))))
   \<and> (\<forall>g. GpioRemove g \<notin> set (trace (snd (snd (max14906_init
          ((regfile_platform example_hdr 0)\<lparr>plat_gpio_get_optional := \<lambda>prm p. (- 22, None, p)\<rparr>)
          example_hdr None \<lparr>comm_param = Some 3, enable_param = Some 2, crc_en = True\<rparr>
          example_world)))))
   \<and> (\<forall>c. SpiRemove c \<notin> set (trace (snd (snd (max14906_init
          ((regfile_platform example_hdr 0)\<lparr>plat_gpio_get_optional := \<lambda>prm p. (- 22, None, p)\<rparr>)
          example_hdr None \<lparr>comm_param = Some 3, enable_param = Some 2, crc_en = True\<rparr>
          example_world)))))"
proof -
  let ?P = "regfile_platform example_hdr 0"
  let ?Q = "(regfile_platform example_hdr 0)\<lparr>plat_gpio_get_optional := \<lambda>prm p. (- 22, None, p)\<rparr>"
  let ?prm = "\<lparr>comm_param = Some 3, enable_param = Some 2, crc_en = True\<rparr>"
  let ?w1 = "\<lparr>plat = plat example_world, trace = [Calloc]\<rparr>"
  let ?w2 = "\<lparr>plat = plat example_world, trace = [Calloc, SpiInit (Some 3)]\<rparr>"
  let ?w3 = "\<lparr>plat = plat example_world,
              trace = [Calloc, SpiInit (Some 3), GpioGetOptional (Some 2)]\<rparr>"
  let ?d = "calloc_desc\<lparr>comm_desc := Some 0, crc_en := True, enable := None\<rparr>"
  have a: "no_os_calloc ?Q example_world = (True, ?w1)"
    by (simp add: no_os_calloc_def regfile_platform_sel example_world_def)
  have b: "no_os_spi_init ?Q (Some 3) ?w1 = (0, Some 0, ?w2)"
    by (simp add: no_os_spi_init_def regfile_platform_sel)
  have cc: "no_os_gpio_get_optional ?Q (Some 2) ?w2 = (- 22, None, ?w3)"
    by (simp add: no_os_gpio_get_optional_def)
  have init: "max14906_init ?Q example_hdr None ?prm example_world
      = init_finish ?Q example_hdr None ?d ?w3"
    by (simp add: max14906_init_def a b cc Let_def)
  have len: "length (buff ?d) = 3" and chip: "chip_address ?d = 0"
    by (simp_all add: calloc_desc_def)
  have "plat_spi_transfer ?Q = plat_spi_transfer ?P" by simp
  then have "run_ops ?Q example_hdr (init_ops example_hdr) ?d ?w3
      = run_ops ?P example_hdr (init_ops example_hdr) ?d ?w3"
    by (rule run_ops_platform)
  with regfile_run_ops [OF len chip init_ops_ok [OF hdr_ok_example], where st = 0 and w = ?w3]
  have cfg: "fst (init_configure ?Q example_hdr ?d ?w3) = 0"
    by (auto simp add: init_configure_run_ops)
  obtain ret desc' w' where fin: "init_finish ?Q example_hdr None ?d ?w3 = (ret, desc', w')"
    by (metis prod_cases3)
  from fin cfg have r0: "ret = 0"
    by (auto simp add: init_finish_def split: prod.splits if_splits)
  with init_finish_result [OF len fin] obtain d' es where
    d': "desc' = Some d'" and tr: "trace w' = trace ?w3 @ es" and es: "list_all is_xfer es"
    by blast
  from es have "Free \<notin> set es" "\<forall>g. GpioRemove g \<notin> set es" "\<forall>c. SpiRemove c \<notin> set es"
    by (auto simp add: list_all_iff is_xfer_def)
  with tr have "Free \<notin> set (trace w')" "\<forall>g. GpioRemove g \<notin> set (trace w')"
    "\<forall>c. SpiRemove c \<notin> set (trace w')"
    by simp_all
  with r0 d' cc show ?thesis by (simp add: init fin)
qed

text \<open>
  C10. Let calloc succeed, the transport be acquired and \<^verbatim>\<open>no_os_gpio_get_optional\<close>
  return an error. Then \<^verbatim>\<open>max14906_init\<close> goes on with the operations of
  \<open>init_ops\<close> (the reads of the fault registers, the configuration of the channels)
  from the world the failed call left, three calls so far (calloc, SPI init, GPIO get),
  with whatever handle that call stored: its result is 0, the descriptor and the world of
  these operations when they succeed, and the code of the one that fails otherwise. Every
  call these operations make is a transfer; when they succeed \<^verbatim>\<open>max14906_init\<close>
  returns 0 and its events are the three calls followed by exactly their transfers; and
  on either path no \<^verbatim>\<open>no_os_gpio_set_value\<close> is ever called.
\<close>

theorem init_ignores_gpio_get_error:
  "case no_os_calloc P w of (ok, w1) \<Rightarrow>
   case no_os_spi_init P (comm_param param) w1 of (r2, c, w2) \<Rightarrow>
   case no_os_gpio_get_optional P (enable_param param) w2 of (r3, g, w3) \<Rightarrow>
   case run_ops P h (init_ops h) (init_desc param c g) w3 of (r5, d5, w5) \<Rightarrow>
     ok \<and> r2 = 0 \<and> r3 \<noteq> 0 \<longrightarrow>
       max14906_init P h desc param w
         = (if r5 \<noteq> 0 then (r5, desc, init_unwind P g c w5) else (0, Some d5, w5))
       \<and> events_since w w3
           = [Calloc, SpiInit (comm_param param), GpioGetOptional (enable_param param)]
       \<and> list_all is_xfer (events_since w3 w5)
       \<and> (r5 = 0 \<longrightarrow>
            fst (max14906_init P h desc param w) = 0
            \<and> (\<exists>vs. length vs = length (init_ops h)
                 \<and> events_since w (snd (snd (max14906_init P h desc param w)))
                     = [Calloc, SpiInit (comm_param param), GpioGetOptional (enable_param param)]
                       @ concat (map2 (op_events h (init_desc param c g)) (init_ops h) vs)))
       \<and> (\<forall>g' v. GpioSetValue g' v
                  \<notin> set (events_since w (snd (snd (max14906_init P h desc param w)))))"
proof -
  obtain ok w1 where a: "no_os_calloc P w = (ok, w1)" by (metis prod.exhaust)
  obtain r2 c w2 where b: "no_os_spi_init P (comm_param param) w1 = (r2, c, w2)"
    by (metis prod_cases3)
  obtain r3 g w3 where cc: "no_os_gpio_get_optional P (enable_param param) w2 = (r3, g, w3)"
    by (metis prod_cases3)
  obtain r4 w4 where s: "no_os_gpio_set_value P g NO_OS_GPIO_HIGH w3 = (r4, w4)"
    by (metis prod.exhaust)
  obtain r5 d5 w5 where
    run: "run_ops P h (init_ops h) (init_desc param c g) w3 = (r5, d5, w5)"
    by (metis prod_cases3)
  let ?d = "init_desc param c g"
  let ?pre = "[Calloc, SpiInit (comm_param param), GpioGetOptional (enable_param param)]"
  have len: "length (buff ?d) = 3" by (simp add: init_desc_simps)
  have tr: "trace w3 = trace w @ ?pre"
    using a b cc
    by (auto simp add: no_os_calloc_def no_os_spi_init_def no_os_gpio_get_optional_def
        split: prod.splits)
  from run_ops_xfers [OF len run] obtain es where
    es: "trace w5 = trace w3 @ es" "list_all is_xfer es" by blast
  have "max14906_init P h desc param w
         = (if r5 \<noteq> 0 then (r5, desc, init_unwind P g c w5) else (0, Some d5, w5))
       \<and> events_since w w3 = ?pre
       \<and> list_all is_xfer (events_since w3 w5)
       \<and> (r5 = 0 \<longrightarrow>
            fst (max14906_init P h desc param w) = 0
            \<and> (\<exists>vs. length vs = length (init_ops h)
                 \<and> events_since w (snd (snd (max14906_init P h desc param w)))
                     = ?pre @ concat (map2 (op_events h ?d) (init_ops h) vs)))
       \<and> (\<forall>g' v. GpioSetValue g' v
                  \<notin> set (events_since w (snd (snd (max14906_init P h desc param w)))))"
    if h: "ok" "r2 = 0" "r3 \<noteq> 0"
  proof -
    from h have run': "run_ops P h (init_ops h) ?d (if r3 = 0 then w4 else w3) = (r5, d5, w5)"
      using run by simp
    from init_steps [OF a b cc s run', of desc] h
    have eq: "max14906_init P h desc param w
         = (if r5 \<noteq> 0 then (r5, desc, init_unwind P g c w5) else (0, Some d5, w5))"
      by simp
    have e2: "events_since w w3 = ?pre" using tr by (simp add: events_since_def)
    have e3: "list_all is_xfer (events_since w3 w5)" using es by (simp add: events_since_def)
    have e4: "fst (max14906_init P h desc param w) = 0
            \<and> (\<exists>vs. length vs = length (init_ops h)
                 \<and> events_since w (snd (snd (max14906_init P h desc param w)))
                     = ?pre @ concat (map2 (op_events h ?d) (init_ops h) vs))" if r5: "r5 = 0"
    proof -
      from run_ops_result [OF len run] r5 obtain vs where
        vs: "length vs = length (init_ops h)"
        "events_since w3 w5 = concat (map2 (op_events h ?d) (init_ops h) vs)" by blast
      from vs(2) es(1) have "es = concat (map2 (op_events h ?d) (init_ops h) vs)"
        by (simp add: events_since_def)
      with es(1) tr have "events_since w w5
          = ?pre @ concat (map2 (op_events h ?d) (init_ops h) vs)"
        by (simp add: events_since_def)
      with vs(1) r5 show ?thesis by (auto simp add: eq)
    qed
    have nset: "\<forall>g' v. GpioSetValue g' v \<notin> set es"
      using es(2) by (blast dest: xfer_not_set_value)
    have e5: "\<forall>g' v. GpioSetValue g' v
                  \<notin> set (events_since w (snd (snd (max14906_init P h desc param w))))"
      using nset es(1) tr by (auto simp add: eq events_since_def init_unwind_events)
    from eq e2 e3 e4 e5 show ?thesis by blast
  qed
  then show ?thesis unfolding a b cc run prod.case by blast
qed

text \<open>
  C10 on the register file with a \<^verbatim>\<open>no_os_gpio_get_optional\<close> that fails with -22:
  init returns 0, its events are the three set-up calls and the transfers of
  \<open>init_ops\<close>, and it never sets a GPIO value.
\<close>

theorem init_ignores_gpio_get_error_witness:
  "fst (no_os_calloc
          ((regfile_platform example_hdr 0)\<lparr>plat_gpio_get_optional := \<lambda>prm p. (- 22, None, p)\<rparr>)
          example_world)
   \<and> fst (no_os_gpio_get_optional
          ((regfile_platform example_hdr 0)\<lparr>plat_gpio_get_optional := \<lambda>prm p. (- 22, None, p)\<rparr>)
          (Some 2)
          \<lparr>plat = plat example_world, trace = [Calloc, SpiInit (Some 3)]\<rparr>) = - 22
   \<and> fst (max14906_init
          ((regfile_platform example_hdr 0)\<lparr>plat_gpio_get_optional := \<lambda>prm p. (- 22, None, p)\<rparr>)
          example_hdr None \<lparr>comm_param = Some 3, enable_param = Some 2, crc_en = True\<rparr>
          example_world) = 0
   \<and> (\<exists>vs. length vs = length (init_ops example_hdr)
         \<and> events_since example_world (snd (snd (max14906_init
             ((regfile_platform example_hdr 0)
                \<lparr>plat_gpio_get_optional := \<lambda>prm p. (- 22, None, p)\<rparr>)
             example_hdr None \<lparr>comm_param = Some 3, enable_param = Some 2, crc_en = True\<rparr>
             example_world)))
           = [Calloc, SpiInit (Some 3), GpioGetOptional (Some 2)]
             @ concat (map2 (op_events example_hdr
                  (init_desc \<lparr>comm_param = Some 3, enable_param = Some 2, crc_en = True\<rparr>
                     (Some 0) None))
                (init_ops example_hdr) vs))
   \<and> (\<forall>g' v. GpioSetValue g' v \<notin> set (events_since example_world (snd (snd (max14906_init
          ((regfile_platform example_hdr 0)\<lparr>plat_gpio_get_optional := \<lambda>prm p. (- 22, None, p)\<rparr>)
          example_hdr None \<lparr>comm_param = Some 3, enable_param = Some 2, crc_en = True\<rparr>
          example_world)))))"
proof -
  let ?P = "regfile_platform example_hdr 0"
  let ?Q = "(regfile_platform example_hdr 0)\<lparr>plat_gpio_get_optional := \<lambda>prm p. (- 22, None, p)\<rparr>"
  let ?prm = "\<lparr>comm_param = Some 3, enable_param = Some 2, crc_en = True\<rparr>"
  let ?w1 = "\<lparr>plat = plat example_world, trace = [Calloc]\<rparr>"
  let ?w2 = "\<lparr>plat = plat example_world, trace = [Calloc, SpiInit (Some 3)]\<rparr>"
  let ?w3 = "\<lparr>plat = plat example_world,
              trace = [Calloc, SpiInit (Some 3), GpioGetOptional (Some 2)]\<rparr>"
  let ?d = "init_desc ?prm (Some 0) None"
  have a: "no_os_calloc ?Q example_world = (True, ?w1)"
    by (simp add: no_os_calloc_def regfile_platform_sel example_world_def)
  have b: "no_os_spi_init ?Q (Some 3) ?w1 = (0, Some 0, ?w2)"
    by (simp add: no_os_spi_init_def regfile_platform_sel)
  have cc: "no_os_gpio_get_optional ?Q (Some 2) ?w2 = (- 22, None, ?w3)"
    by (simp add: no_os_gpio_get_optional_def)
  have len: "length (buff ?d) = 3" and chip: "chip_address ?d = 0"
    by (simp_all add: init_desc_simps)
  have "plat_spi_transfer ?Q = plat_spi_transfer ?P" by simp
  then have "run_ops ?Q example_hdr (init_ops example_hdr) ?d ?w3
      = run_ops ?P example_hdr (init_ops example_hdr) ?d ?w3"
    by (rule run_ops_platform)
  with regfile_run_ops [OF len chip init_ops_ok [OF hdr_ok_example], where st = 0 and w = ?w3]
  obtain d5 w5 where run: "run_ops ?Q example_hdr (init_ops example_hdr) ?d ?w3 = (0, d5, w5)"
    by auto
  note t = init_ignores_gpio_get_error [where P = ?Q and h = example_hdr and desc = None
      and param = ?prm and w = example_world]
  have n: "(- 22 :: int) \<noteq> 0" by simp
  from t n have
    "fst (max14906_init ?Q example_hdr None ?prm example_world) = 0
     \<and> (\<exists>vs. length vs = length (init_ops example_hdr)
         \<and> events_since example_world
             (snd (snd (max14906_init ?Q example_hdr None ?prm example_world)))
           = [Calloc, SpiInit (Some 3), GpioGetOptional (Some 2)]
             @ concat (map2 (op_events example_hdr ?d) (init_ops example_hdr) vs))
     \<and> (\<forall>g' v. GpioSetValue g' v \<notin> set (events_since example_world (snd (snd (max14906_init
          ?Q example_hdr None ?prm example_world)))))"
    unfolding max14906_init_param.select_convs a b cc run prod.case by blast
  moreover have "fst (no_os_calloc ?Q example_world)" by (simp add: a)
  moreover have "fst (no_os_gpio_get_optional ?Q (Some 2) ?w2) = - 22"
    using cc by simp
  ultimately show ?thesis by blast
qed

section \<open>Removal\<close>

text \<open>
  C9. \<^verbatim>\<open>max14906_remove\<close> with a null descriptor returns \<^verbatim>\<open>-ENODEV\<close> and leaves
  the world as it was: no call into the platform is made (no transfer, no GPIO access, no
  free), so no channel is configured.
\<close>

theorem remove_null_desc:
  "max14906_remove P h None w = (- ENODEV, None, w)
   \<and> events_since w (snd (snd (max14906_remove P h None w))) = []"
  by (simp add: max14906_remove_def)

section \<open>Register access: the claims\<close>

text \<open>
  C4. For every \<open>addr\<close> and \<open>val\<close>, \<^verbatim>\<open>max14906_reg_write\<close> makes exactly one
  call of the transport, with a message that is not received into a buffer and has
  \<^verbatim>\<open>cs_change\<close> 1, and returns the transport's code whatever it is. The message holds
  the command byte (chip address, register address and 1 in the RW field, each prepared
  in its field of the header), then \<open>val\<close> as a byte; with CRC enabled the CRC5
  (encode variant) of these two bytes follows and the length is 3 instead of 2.
\<close>

theorem reg_write_transfer:
  assumes "length (buff desc) = 3"
  shows "max14906_reg_write P h desc addr val w =
      (case plat_spi_transfer P (comm_desc desc)
              (write_msg h (chip_address desc) (crc_en desc) addr val) (plat w) of
         (ret, rx, p) \<Rightarrow>
           (ret,
            desc\<lparr>buff := write_frame h (chip_address desc) (crc_en desc) addr val
                      @ drop (frame_len (crc_en desc)) (buff desc)\<rparr>,
            \<lparr>plat = p,
             trace = trace w @ [SpiTransfer (comm_desc desc)
                       (write_msg h (chip_address desc) (crc_en desc) addr val)]\<rparr>))
    \<and> write_msg h (chip_address desc) (crc_en desc) addr val =
        \<lparr>tx_buff =
           (let b0 = ucast (no_os_field_prep (MAX14906_CHIP_ADDR_MASK h) (chip_address desc)
                            OR no_os_field_prep (MAX14906_ADDR_MASK h) addr
                            OR no_os_field_prep (MAX14906_RW_MASK h) 1);
                b1 = ucast val
            in if crc_en desc then [b0, b1, max14906_crc_encode [b0, b1]] else [b0, b1]),
         rx_buff = False,
         bytes_number = (if crc_en desc then 3 else 2),
         cs_change = 1\<rparr>"
  by (simp add: reg_write_eq [OF assms] Let_def no_os_spi_transfer_def write_msg_def
      write_frame_def frame_len_def cmd_byte_def split: prod.splits)

text \<open>C4 on the register file, with CRC enabled: the write succeeds with a 3-byte message.\<close>

theorem reg_write_transfer_witness:
  "length (buff (example_desc True)) = 3
   \<and> fst (max14906_reg_write (regfile_platform example_hdr 0) example_hdr (example_desc True)
            0xE 0x55 example_world) = 0
   \<and> bytes_number (write_msg example_hdr 0 True 0xE 0x55) = 3"
proof -
  have len: "length (buff (example_desc True)) = 3"
    by (simp add: example_desc_def calloc_desc_def)
  have wr: "writes_ok example_hdr 0 0xE" by code_simp
  from reg_write_transfer [OF len, where P = "regfile_platform example_hdr 0"
      and h = example_hdr and addr = "0xE" and val = "0x55" and w = example_world] wr len
  show ?thesis
    by (simp add: regfile_platform_sel regfile_transfer_def Let_def writes_ok_def
        example_desc_def calloc_desc_def write_msg_def write_frame_def frame_len_def
        split: prod.splits)
qed

text \<open>
  C3. With CRC enabled and a transfer that succeeds, \<^verbatim>\<open>max14906_reg_read\<close> computes
  the CRC5 (decode variant) of the buffer as the transport left it and compares it with
  byte 2 of that buffer. When they differ it returns \<^verbatim>\<open>-EINVAL\<close> and what \<^verbatim>\<open>val\<close>
  points at is unchanged; when they agree it stores byte 1 there and returns 0. When the
  transport answers 3 bytes, the buffer is the answer.
\<close>

theorem reg_read_crc_check:
  assumes "crc_en desc" and "length (buff desc) = 3"
    and "plat_spi_transfer P (comm_desc desc) (read_msg h (chip_address desc) True addr) (plat w)
           = (0, rx, p)"
  shows "max14906_reg_read P h desc addr val w =
     (let buf = read_buf h desc addr rx;
          w' = \<lparr>plat = p,
                trace = trace w @ [SpiTransfer (comm_desc desc)
                          (read_msg h (chip_address desc) True addr)]\<rparr>
      in if max14906_crc_decode buf \<noteq> buf ! 2
         then (- EINVAL, val, desc\<lparr>buff := buf\<rparr>, w')
         else (0, ucast (buf ! 1), desc\<lparr>buff := buf\<rparr>, w'))
    \<and> (length rx = 3 \<longrightarrow> read_buf h desc addr rx = rx)"
  using assms
  by (simp add: reg_read_eq [OF assms(2)] Let_def no_os_spi_transfer_def read_buf_def
      store_rx_def read_frame_def frame_len_def)

text \<open>
  C3 on a transport that answers the bytes 0x00 0x55 0xFF: 0xFF is not a CRC5, the read
  returns \<^verbatim>\<open>-EINVAL\<close> and the 7 that \<^verbatim>\<open>val\<close> pointed at is still there.
\<close>

theorem reg_read_crc_check_witness:
  "crc_en (example_desc True) \<and> length (buff (example_desc True)) = 3
   \<and> plat_spi_transfer
         ((regfile_platform example_hdr 0)\<lparr>plat_spi_transfer := \<lambda>c m p. (0, [0, 0x55, 0xFF], p)\<rparr>)
         (comm_desc (example_desc True))
         (read_msg example_hdr (chip_address (example_desc True)) True 0xE) (plat example_world)
       = (0, [0, 0x55, 0xFF], plat example_world)
   \<and> fst (max14906_reg_read
         ((regfile_platform example_hdr 0)\<lparr>plat_spi_transfer := \<lambda>c m p. (0, [0, 0x55, 0xFF], p)\<rparr>)
         example_hdr (example_desc True) 0xE 7 example_world) = - EINVAL
   \<and> fst (snd (max14906_reg_read
         ((regfile_platform example_hdr 0)\<lparr>plat_spi_transfer := \<lambda>c m p. (0, [0, 0x55, 0xFF], p)\<rparr>)
         example_hdr (example_desc True) 0xE 7 example_world)) = 7"
proof -
  let ?P = "(regfile_platform example_hdr 0)\<lparr>plat_spi_transfer := \<lambda>c m p. (0, [0, 0x55, 0xFF], p)\<rparr>"
  have crc: "crc_en (example_desc True)" and len: "length (buff (example_desc True)) = 3"
    by (simp_all add: example_desc_def calloc_desc_def)
  have tr: "plat_spi_transfer ?P (comm_desc (example_desc True))
         (read_msg example_hdr (chip_address (example_desc True)) True 0xE) (plat example_world)
       = (0, [0, 0x55, 0xFF], plat example_world)"
    by simp
  have bad: "max14906_crc_decode [0, 0x55, 0xFF] \<noteq> 0xFF"
    using crc_decode_5bit [where a = 0 and b = "0x55" and xs = "[0xFF]"] by auto
  from reg_read_crc_check [OF crc len tr, where val = 7] crc len tr bad
  show ?thesis
    by (simp add: Let_def)
qed

text \<open>
  C5. \<^verbatim>\<open>max14906_reg_update\<close> first reads the register. If the read fails, its code
  is returned and the read's transfer is the only one. If it succeeds with the value
  \<open>v\<close>, the update is the write of \<open>(v AND NOT msk) OR (msk AND val)\<close> to the same
  address, and the transfers are the read and then that write.
\<close>

theorem reg_update_read_modify_write:
  assumes "length (buff desc) = 3"
  shows "case max14906_reg_read P h desc addr 0 w of
           (ret, v, d, w1) \<Rightarrow>
             if ret \<noteq> 0
             then max14906_reg_update P h desc addr msk val w = (ret, d, w1)
                  \<and> events_since w w1
                      = [SpiTransfer (comm_desc desc)
                           (read_msg h (chip_address desc) (crc_en desc) addr)]
             else max14906_reg_update P h desc addr msk val w
                    = max14906_reg_write P h d addr ((v AND NOT msk) OR (msk AND val)) w1
                  \<and> events_since w (snd (snd (max14906_reg_update P h desc addr msk val w)))
                      = [SpiTransfer (comm_desc desc)
                           (read_msg h (chip_address desc) (crc_en desc) addr),
                         SpiTransfer (comm_desc desc)
                           (write_msg h (chip_address desc) (crc_en desc) addr
                              ((v AND NOT msk) OR (msk AND val)))]"
proof -
  obtain ret v d w1 where rd: "max14906_reg_read P h desc addr 0 w = (ret, v, d, w1)"
    by (metis prod_cases4)
  note R = reg_read_result [OF assms rd]
  show ?thesis
  proof (cases "ret = 0")
    case False
    with R show ?thesis
      by (simp add: rd max14906_reg_update_def events_since_app)
  next
    case True
    obtain r2 d2 w2 where
      up: "max14906_reg_update P h desc addr msk val w = (r2, d2, w2)"
      by (metis prod_cases3)
    from reg_update_result [OF assms up] obtain v' where
      ev: "r2 = 0 \<longrightarrow> events_since w w2 = op_events h desc (RegUpdate addr msk val) v'"
      by blast
    from up rd True have wr:
      "max14906_reg_write P h d addr ((v AND NOT msk) OR (msk AND val)) w1 = (r2, d2, w2)"
      by (simp add: max14906_reg_update_def Let_def)
    from R have sd: "same_dev desc d" by simp
    then have len1: "length (buff d) = 3" using assms by (simp add: same_dev_fields)
    from reg_write_result [OF len1 wr] R sd have
      "events_since w w2 = [SpiTransfer (comm_desc desc)
                           (read_msg h (chip_address desc) (crc_en desc) addr),
                         SpiTransfer (comm_desc desc)
                           (write_msg h (chip_address desc) (crc_en desc) addr
                              ((v AND NOT msk) OR (msk AND val)))]"
      by (simp add: events_since_app same_dev_fields)
    with True wr up show ?thesis by (simp add: rd)
  qed
qed

text \<open>C5 on the register file: the read succeeds and the update is the write.\<close>

theorem reg_update_read_modify_write_witness:
  "length (buff (example_desc False)) = 3
   \<and> (case max14906_reg_read (regfile_platform example_hdr 0) example_hdr (example_desc False)
            0xE 0 example_world of
         (ret, v, d, w1) \<Rightarrow>
           ret = 0
           \<and> max14906_reg_update (regfile_platform example_hdr 0) example_hdr (example_desc False)
                0xE 0x0C 0x04 example_world
              = max14906_reg_write (regfile_platform example_hdr 0) example_hdr d 0xE
                  ((v AND NOT 0x0C) OR (0x0C AND 0x04)) w1)"
proof -
  have len: "length (buff (example_desc False)) = 3"
    by (simp add: example_desc_def calloc_desc_def)
  have rd: "reads_ok example_hdr (chip_address (example_desc False)) 0xE"
    by code_simp
  from regfile_read [OF len rd, where st = 0 and val = 0 and w = example_world]
  obtain d' w' v where
    r: "max14906_reg_read (regfile_platform example_hdr 0) example_hdr (example_desc False)
            0xE 0 example_world = (0, v, d', w')" by blast
  from reg_update_read_modify_write [OF len, where P = "regfile_platform example_hdr 0"
      and h = example_hdr and addr = "0xE" and w = example_world and msk = "0x0C" and val = "0x04"]
    len
  show ?thesis by (simp add: r)
qed

section \<open>Channels: the claims\<close>

text \<open>
  C6. \<^verbatim>\<open>max14906_ch_func\<close> is a list of register updates done in order, the first
  failure ending it: for high impedance the push-pull mode in \<^verbatim>\<open>CONFIG_DO\<close> and then
  the direction 1 in \<^verbatim>\<open>SETOUT\<close>; for input the high-side mode in \<^verbatim>\<open>CONFIG_DO\<close>
  and then the direction in \<^verbatim>\<open>SETOUT\<close>; otherwise the direction alone. The last
  update of every list is the direction in \<^verbatim>\<open>SETOUT\<close>. When a call for high impedance
  succeeds, its transfers are the read and the write of \<^verbatim>\<open>CONFIG_DO\<close> followed by the
  read and the write of \<^verbatim>\<open>SETOUT\<close>; when the mode update fails, the call is that
  update and nothing more.
\<close>

theorem ch_func_mode_before_direction:
  "max14906_ch_func P h desc ch func w =
     run_ops P h
       (if func = MAX14906_HIGH_Z h then
          [RegUpdate (MAX14906_CONFIG_DO_REG h) (MAX14906_DO_MASK h ch)
             (no_os_field_prep (MAX14906_DO_MASK h ch) (MAX14906_PUSH_PULL h)),
           RegUpdate (MAX14906_SETOUT_REG h) (MAX14906_CH_DIR_MASK h ch)
             (no_os_field_prep (MAX14906_CH_DIR_MASK h ch) 1)]
        else if func = MAX14906_IN h then
          [RegUpdate (MAX14906_CONFIG_DO_REG h) (MAX14906_DO_MASK h ch)
             (no_os_field_prep (MAX14906_DO_MASK h ch) (MAX14906_HIGH_SIDE h)),
           RegUpdate (MAX14906_SETOUT_REG h) (MAX14906_CH_DIR_MASK h ch)
             (no_os_field_prep (MAX14906_CH_DIR_MASK h ch) func)]
        else
          [RegUpdate (MAX14906_SETOUT_REG h) (MAX14906_CH_DIR_MASK h ch)
             (no_os_field_prep (MAX14906_CH_DIR_MASK h ch) func)])
       desc w
   \<and> (length (buff desc) = 3 \<and> fst (max14906_ch_func P h desc ch (MAX14906_HIGH_Z h) w) = 0
      \<longrightarrow> (\<exists>v1 v2.
            events_since w (snd (snd (max14906_ch_func P h desc ch (MAX14906_HIGH_Z h) w)))
            = [SpiTransfer (comm_desc desc)
                 (read_msg h (chip_address desc) (crc_en desc) (MAX14906_CONFIG_DO_REG h)),
               SpiTransfer (comm_desc desc)
                 (write_msg h (chip_address desc) (crc_en desc) (MAX14906_CONFIG_DO_REG h)
                    ((v1 AND NOT (MAX14906_DO_MASK h ch))
                     OR (MAX14906_DO_MASK h ch
                         AND no_os_field_prep (MAX14906_DO_MASK h ch) (MAX14906_PUSH_PULL h)))),
               SpiTransfer (comm_desc desc)
                 (read_msg h (chip_address desc) (crc_en desc) (MAX14906_SETOUT_REG h)),
               SpiTransfer (comm_desc desc)
                 (write_msg h (chip_address desc) (crc_en desc) (MAX14906_SETOUT_REG h)
                    ((v2 AND NOT (MAX14906_CH_DIR_MASK h ch))
                     OR (MAX14906_CH_DIR_MASK h ch
                         AND no_os_field_prep (MAX14906_CH_DIR_MASK h ch) 1)))]))
   \<and> (fst (max14906_reg_update P h desc (MAX14906_CONFIG_DO_REG h) (MAX14906_DO_MASK h ch)
             (no_os_field_prep (MAX14906_DO_MASK h ch) (MAX14906_PUSH_PULL h)) w) \<noteq> 0
      \<longrightarrow> max14906_ch_func P h desc ch (MAX14906_HIGH_Z h) w
          = max14906_reg_update P h desc (MAX14906_CONFIG_DO_REG h) (MAX14906_DO_MASK h ch)
              (no_os_field_prep (MAX14906_DO_MASK h ch) (MAX14906_PUSH_PULL h)) w)"
proof (intro conjI impI)
  show "max14906_ch_func P h desc ch func w =
     run_ops P h
       (if func = MAX14906_HIGH_Z h then
          [RegUpdate (MAX14906_CONFIG_DO_REG h) (MAX14906_DO_MASK h ch)
             (no_os_field_prep (MAX14906_DO_MASK h ch) (MAX14906_PUSH_PULL h)),
           RegUpdate (MAX14906_SETOUT_REG h) (MAX14906_CH_DIR_MASK h ch)
             (no_os_field_prep (MAX14906_CH_DIR_MASK h ch) 1)]
        else if func = MAX14906_IN h then
          [RegUpdate (MAX14906_CONFIG_DO_REG h) (MAX14906_DO_MASK h ch)
             (no_os_field_prep (MAX14906_DO_MASK h ch) (MAX14906_HIGH_SIDE h)),
           RegUpdate (MAX14906_SETOUT_REG h) (MAX14906_CH_DIR_MASK h ch)
             (no_os_field_prep (MAX14906_CH_DIR_MASK h ch) func)]
        else
          [RegUpdate (MAX14906_SETOUT_REG h) (MAX14906_CH_DIR_MASK h ch)
             (no_os_field_prep (MAX14906_CH_DIR_MASK h ch) func)])
       desc w"
    using ch_func_run_ops [of P h desc ch func w] by (simp add: func_ops_def Let_def)
next
  assume "length (buff desc) = 3 \<and> fst (max14906_ch_func P h desc ch (MAX14906_HIGH_Z h) w) = 0"
  then show "\<exists>v1 v2.
            events_since w (snd (snd (max14906_ch_func P h desc ch (MAX14906_HIGH_Z h) w)))
            = [SpiTransfer (comm_desc desc)
                 (read_msg h (chip_address desc) (crc_en desc) (MAX14906_CONFIG_DO_REG h)),
               SpiTransfer (comm_desc desc)
                 (write_msg h (chip_address desc) (crc_en desc) (MAX14906_CONFIG_DO_REG h)
                    ((v1 AND NOT (MAX14906_DO_MASK h ch))
                     OR (MAX14906_DO_MASK h ch
                         AND no_os_field_prep (MAX14906_DO_MASK h ch) (MAX14906_PUSH_PULL h)))),
               SpiTransfer (comm_desc desc)
                 (read_msg h (chip_address desc) (crc_en desc) (MAX14906_SETOUT_REG h)),
               SpiTransfer (comm_desc desc)
                 (write_msg h (chip_address desc) (crc_en desc) (MAX14906_SETOUT_REG h)
                    ((v2 AND NOT (MAX14906_CH_DIR_MASK h ch))
                     OR (MAX14906_CH_DIR_MASK h ch
                         AND no_os_field_prep (MAX14906_CH_DIR_MASK h ch) 1)))]"
    using ch_func_high_z_events [of desc P h ch w] by blast
next
  assume "fst (max14906_reg_update P h desc (MAX14906_CONFIG_DO_REG h) (MAX14906_DO_MASK h ch)
             (no_os_field_prep (MAX14906_DO_MASK h ch) (MAX14906_PUSH_PULL h)) w) \<noteq> 0"
  then show "max14906_ch_func P h desc ch (MAX14906_HIGH_Z h) w
          = max14906_reg_update P h desc (MAX14906_CONFIG_DO_REG h) (MAX14906_DO_MASK h ch)
              (no_os_field_prep (MAX14906_DO_MASK h ch) (MAX14906_PUSH_PULL h)) w"
    by (auto simp add: max14906_ch_func_def split: prod.splits)
qed

text \<open>
  C6 on the register file (the call succeeds with four transfers) and on a transport
  that fails with -5 (the mode update fails and the call makes one transfer).
\<close>

theorem ch_func_mode_before_direction_witness:
  "length (buff (example_desc True)) = 3
   \<and> fst (max14906_ch_func (regfile_platform example_hdr 0) example_hdr (example_desc True) 0
            (MAX14906_HIGH_Z example_hdr) example_world) = 0
   \<and> length (events_since example_world
        (snd (snd (max14906_ch_func (regfile_platform example_hdr 0) example_hdr
                     (example_desc True) 0 (MAX14906_HIGH_Z example_hdr) example_world)))) = 4
   \<and> fst (max14906_reg_update
            ((regfile_platform example_hdr 0)\<lparr>plat_spi_transfer := \<lambda>c m p. (- 5, [], p)\<rparr>)
            example_hdr (example_desc True) (MAX14906_CONFIG_DO_REG example_hdr)
            (MAX14906_DO_MASK example_hdr 0)
            (no_os_field_prep (MAX14906_DO_MASK example_hdr 0) (MAX14906_PUSH_PULL example_hdr))
            example_world) \<noteq> 0
   \<and> length (events_since example_world
        (snd (snd (max14906_ch_func
            ((regfile_platform example_hdr 0)\<lparr>plat_spi_transfer := \<lambda>c m p. (- 5, [], p)\<rparr>)
            example_hdr (example_desc True) 0 (MAX14906_HIGH_Z example_hdr) example_world)))) = 1"
proof -
  let ?P = "regfile_platform example_hdr 0"
  let ?Q = "(regfile_platform example_hdr 0)\<lparr>plat_spi_transfer := \<lambda>c m p. (- 5, [], p)\<rparr>"
  let ?hz = "MAX14906_HIGH_Z example_hdr"
  let ?m = "MAX14906_DO_MASK example_hdr 0"
  let ?v = "no_os_field_prep ?m (MAX14906_PUSH_PULL example_hdr)"
  have len: "length (buff (example_desc True)) = 3" by (rule example_desc_simps)
  have chip: "chip_address (example_desc True) = 0" by (rule example_desc_simps)
  have oks: "list_all (op_ok example_hdr) (func_ops example_hdr 0 ?hz)"
    using hdr_ok_regs [OF hdr_ok_example] by (simp add: func_ops_def op_ok_def)
  from regfile_run_ops [OF len chip oks, where st = 0 and w = example_world]
  have s0: "fst (max14906_ch_func ?P example_hdr (example_desc True) 0 ?hz example_world) = 0"
    by (auto simp add: ch_func_run_ops)
  have rd: "max14906_reg_read ?Q example_hdr (example_desc True)
      (MAX14906_CONFIG_DO_REG example_hdr) 0 example_world
      = (- 5, 0, (example_desc True)\<lparr>buff := read_buf example_hdr (example_desc True)
                     (MAX14906_CONFIG_DO_REG example_hdr) []\<rparr>,
         \<lparr>plat = plat example_world,
          trace = trace example_world @ [SpiTransfer (comm_desc (example_desc True))
            (read_msg example_hdr (chip_address (example_desc True))
               (crc_en (example_desc True)) (MAX14906_CONFIG_DO_REG example_hdr))]\<rparr>)"
    by (simp add: reg_read_eq [OF len] no_os_spi_transfer_def Let_def)
  have up: "max14906_reg_update ?Q example_hdr (example_desc True)
      (MAX14906_CONFIG_DO_REG example_hdr) ?m ?v example_world
      = (- 5, (example_desc True)\<lparr>buff := read_buf example_hdr (example_desc True)
                     (MAX14906_CONFIG_DO_REG example_hdr) []\<rparr>,
         \<lparr>plat = plat example_world,
          trace = trace example_world @ [SpiTransfer (comm_desc (example_desc True))
            (read_msg example_hdr (chip_address (example_desc True))
               (crc_en (example_desc True)) (MAX14906_CONFIG_DO_REG example_hdr))]\<rparr>)"
    by (simp add: max14906_reg_update_def rd)
  then have f0: "fst (max14906_reg_update ?Q example_hdr (example_desc True)
      (MAX14906_CONFIG_DO_REG example_hdr) ?m ?v example_world) \<noteq> 0"
    by simp
  note t1 = ch_func_mode_before_direction [where P = ?P and h = example_hdr
      and desc = "example_desc True" and ch = 0 and func = ?hz and w = example_world]
  note t2 = ch_func_mode_before_direction [where P = ?Q and h = example_hdr
      and desc = "example_desc True" and ch = 0 and func = ?hz and w = example_world]
  from t1 len s0 have
    "length (events_since example_world
        (snd (snd (max14906_ch_func ?P example_hdr (example_desc True) 0 ?hz example_world)))) = 4"
    by auto
  moreover from t2 f0 have
    "max14906_ch_func ?Q example_hdr (example_desc True) 0 ?hz example_world
      = max14906_reg_update ?Q example_hdr (example_desc True)
          (MAX14906_CONFIG_DO_REG example_hdr) ?m ?v example_world"
    by blast
  then have "length (events_since example_world
        (snd (snd (max14906_ch_func ?Q example_hdr (example_desc True) 0 ?hz example_world)))) = 1"
    by (simp add: up events_since_def)
  ultimately show ?thesis using len s0 f0 by blast
qed

text \<open>
  C1 fails for the current limit. For every channel index, also 4 and above,
  \<^verbatim>\<open>max14906_climit_set\<close> is the register update of \<^verbatim>\<open>CONFIG_CURR_LIM\<close> and begins
  with a read transfer, and \<^verbatim>\<open>max14906_climit_get\<close> with a pointer that is not null
  makes one read transfer: neither looks at the channel index. (\<^verbatim>\<open>max14906_ch_get\<close>
  and \<^verbatim>\<open>max14906_ch_set\<close> do: \<open>ch_get_ch_set_bounds\<close>.)
\<close>

theorem climit_no_channel_check:
  assumes "length (buff desc) = 3"
  shows "max14906_climit_set P h desc ch climit w
           = max14906_reg_update P h desc (MAX14906_CONFIG_CURR_LIM h) (MAX14906_CL_MASK h ch)
               (no_os_field_prep (MAX14906_CL_MASK h ch) climit) w
     \<and> (\<exists>es. events_since w (snd (snd (max14906_climit_set P h desc ch climit w)))
               = SpiTransfer (comm_desc desc)
                   (read_msg h (chip_address desc) (crc_en desc) (MAX14906_CONFIG_CURR_LIM h))
                 # es)
     \<and> events_since w (snd (snd (snd (max14906_climit_get P h desc ch (Some c) w))))
         = [SpiTransfer (comm_desc desc)
              (read_msg h (chip_address desc) (crc_en desc) (MAX14906_CONFIG_CURR_LIM h))]"
proof (intro conjI)
  show "max14906_climit_set P h desc ch climit w
           = max14906_reg_update P h desc (MAX14906_CONFIG_CURR_LIM h) (MAX14906_CL_MASK h ch)
               (no_os_field_prep (MAX14906_CL_MASK h ch) climit) w"
    by (simp add: max14906_climit_set_def)
next
  obtain ret v d w1 where
    rd: "max14906_reg_read P h desc (MAX14906_CONFIG_CURR_LIM h) 0 w = (ret, v, d, w1)"
    by (metis prod_cases4)
  note R = reg_read_result [OF assms rd]
  from R show "events_since w (snd (snd (snd (max14906_climit_get P h desc ch (Some c) w))))
         = [SpiTransfer (comm_desc desc)
              (read_msg h (chip_address desc) (crc_en desc) (MAX14906_CONFIG_CURR_LIM h))]"
    by (simp add: max14906_climit_get_def rd events_since_app)
  from reg_update_starts_with_read [OF assms]
  show "\<exists>es. events_since w (snd (snd (max14906_climit_set P h desc ch climit w)))
               = SpiTransfer (comm_desc desc)
                   (read_msg h (chip_address desc) (crc_en desc) (MAX14906_CONFIG_CURR_LIM h))
                 # es"
    by (simp add: max14906_climit_set_def)
qed

text \<open>
  C1 at channel 4 on the register file: both functions return 0, after two transfers and
  one transfer.
\<close>

theorem climit_no_channel_check_witness:
  "length (buff (example_desc False)) = 3
   \<and> fst (max14906_climit_set (regfile_platform example_hdr 0) example_hdr (example_desc False)
            4 1 example_world) = 0
   \<and> length (events_since example_world
        (snd (snd (max14906_climit_set (regfile_platform example_hdr 0) example_hdr
                     (example_desc False) 4 1 example_world)))) = 2
   \<and> fst (max14906_climit_get (regfile_platform example_hdr 0) example_hdr (example_desc False)
            4 (Some 0) example_world) = 0
   \<and> length (events_since example_world
        (snd (snd (snd (max14906_climit_get (regfile_platform example_hdr 0) example_hdr
                     (example_desc False) 4 (Some 0) example_world))))) = 1"
proof -
  let ?P = "regfile_platform example_hdr 0"
  have len: "length (buff (example_desc False)) = 3" by (rule example_desc_simps)
  have chip: "chip_address (example_desc False) = 0" by (rule example_desc_simps)
  note ok = hdr_ok_regs [OF hdr_ok_example]
  have r: "reads_ok example_hdr (chip_address (example_desc False))
             (MAX14906_CONFIG_CURR_LIM example_hdr)"
    and wr: "writes_ok example_hdr (chip_address (example_desc False))
             (MAX14906_CONFIG_CURR_LIM example_hdr)"
    using ok by (simp_all add: chip)
  from regfile_update [OF len r wr, where st = 0 and w = example_world
      and msk = "MAX14906_CL_MASK example_hdr 4"
      and val = "no_os_field_prep (MAX14906_CL_MASK example_hdr 4) 1"]
  have s0: "fst (max14906_climit_set ?P example_hdr (example_desc False) 4 1 example_world) = 0"
    by (auto simp add: max14906_climit_set_def)
  from regfile_read [OF len r, where st = 0 and w = example_world and val = 0]
  have g0: "fst (max14906_climit_get ?P example_hdr (example_desc False) 4 (Some 0)
               example_world) = 0"
    by (auto simp add: max14906_climit_get_def)
  obtain d' w' where run: "max14906_climit_set ?P example_hdr (example_desc False) 4 1
      example_world = (0, d', w')"
    using s0 by (metis fst_conv prod_cases3)
  then have "max14906_reg_update ?P example_hdr (example_desc False)
      (MAX14906_CONFIG_CURR_LIM example_hdr) (MAX14906_CL_MASK example_hdr 4)
      (no_os_field_prep (MAX14906_CL_MASK example_hdr 4) 1) example_world = (0, d', w')"
    by (simp add: max14906_climit_set_def)
  from reg_update_result [OF len this] have "length (events_since example_world w') = 2"
    by (auto simp add: op_events_def)
  with run have s2: "length (events_since example_world
        (snd (snd (max14906_climit_set ?P example_hdr (example_desc False) 4 1
                     example_world)))) = 2"
    by simp
  from climit_no_channel_check [OF len, where P = ?P and h = example_hdr and ch = 4
      and climit = 1 and w = example_world and c = 0] len s0 s2 g0
  show ?thesis by simp
qed

end
